theory Spec2Isabelle
  imports Complex_Main "HOL-Library.Log_Nat"
begin

section \<open>Prismodoro: the session controller of \<open>src/Component.tsx\<close>\<close>

text \<open>
  The component \<open>PrismodoroUI\<close> keeps its session in React state variables and drives it
  with click handlers, two effects and the callbacks of \<open>setInterval\<close>. The embedding
  keeps the state variables as the fields of one record, each handler as a function on that
  record, the effects as functions run after a handler whenever one of their dependencies
  changed, and the browser's table of live intervals as an explicit store.

  Numbers. The state variables hold JavaScript Numbers (IEEE 754 binary64). Every value
  the interface writes into them is an integer (presets, the slider with step 1, counters),
  and sums, differences and products of integers below \<open>2^53\<close> are exact on binary64, so the
  fields are \<open>int\<close>. The three places where the source multiplies or divides by a
  non-integer (\<open>* breakRatio\<close>, \<open>* 0.8\<close>, \<open>/ 60\<close>) are modelled with binary64 rounding of
  the exact result, over the rationals.

  Steps. One step is a handler (or an interval callback) together with the effects that
  the resulting render triggers; every state updater runs once per update. Unmounting is
  not an action of the model.

  The purely presentational variables \<open>isBlindMode\<close> and \<open>helpText\<close> are left out.
\<close>

subsection \<open>Types\<close>

datatype TimerStatus = Idle | Setup | Running | Paused | Flow | Summary | Break | BreakEnd

datatype FocusMode = Classic | Prisma

text \<open>The props: \<open>defaultMinutes\<close>, and whether the optional \<open>onFinish\<close> is supplied.\<close>

record PrismodoroProps =
  defaultMinutes :: int
  onFinish :: bool

text \<open>
  The callback handed to \<open>setInterval\<close> by the timer effect. The countdown callback is a
  closure over \<open>focusMode\<close> and \<open>targetMinutes\<close> of the render that created it.
\<close>

datatype callback = Countdown FocusMode int | Overtime | BreakTick

record component =
  status :: TimerStatus
  targetMinutes :: int
  timeLeft :: int
  flowTime :: int
  totalFocusTime :: int
  focusMode :: FocusMode
  isCustomMode :: bool
  breakTimeLeft :: int
  breakDuration :: int
  previousTargetMinutes :: int
  previousFocusMode :: FocusMode
  pomodoroCycles :: int
  timerRef :: "nat option"
  intervals :: "(nat \<times> callback) list"
  nextId :: nat
  alarmsPlayed :: nat
  onFinishCalls :: "int list"

text \<open>
  \<open>timerRef\<close> is \<open>timerRef.current\<close> (\<open>None\<close> for \<open>null\<close>); \<open>intervals\<close> is the browser's
  table of live intervals, oldest first, and \<open>nextId\<close> the next interval id.
  \<open>alarmsPlayed\<close> counts the calls of \<open>playAlarmSound\<close> and \<open>onFinishCalls\<close> lists the
  arguments of the calls of \<open>onFinish\<close>, oldest first.
\<close>

subsection \<open>Number arithmetic (binary64)\<close>

definition pow2 :: "int \<Rightarrow> rat" where
  "pow2 e = (if 0 \<le> e then 2 ^ nat e else 1 / 2 ^ nat (- e))"

text \<open>For \<open>x > 0\<close>, the \<open>k\<close> with \<open>2^k \<le> x < 2^(k+1)\<close>.\<close>

definition floor_log2 :: "rat \<Rightarrow> int" where
  "floor_log2 x =
     (let d = bitlen (fst (quotient_of x)) - bitlen (snd (quotient_of x))
      in if pow2 d \<le> x then d else d - 1)"

definition round_ties_even :: "rat \<Rightarrow> int" where
  "round_ties_even r =
     (let f = \<lfloor>r\<rfloor>; d = r - of_int f
      in if d < 1 / 2 then f
         else if 1 / 2 < d then f + 1
         else if even f then f else f + 1)"

text \<open>
  Rounding of an exact result to the nearest binary64 value (53 significant bits, ties to
  even). The exponent is not bounded: every value of this program is far from overflow and
  from the subnormal range.
\<close>

definition to_double :: "rat \<Rightarrow> rat" where
  "to_double x =
     (if x = 0 then 0
      else let e = floor_log2 \<bar>x\<bar> - 52
           in of_int (round_ties_even (x / pow2 e)) * pow2 e)"

definition num_mul :: "rat \<Rightarrow> rat \<Rightarrow> rat" where
  "num_mul x y = to_double (x * y)"

definition num_div :: "rat \<Rightarrow> rat \<Rightarrow> rat" where
  "num_div x y = to_double (x / y)"

text \<open>\<open>Math.round\<close>: the nearest integer, a tie going towards \<open>+\<infinity>\<close>. \<open>Math.ceil\<close>.\<close>

definition Math_round :: "rat \<Rightarrow> int" where
  "Math_round x = \<lfloor>x + 1 / 2\<rfloor>"

definition Math_ceil :: "rat \<Rightarrow> int" where
  "Math_ceil x = \<lceil>x\<rceil>"

subsection \<open>Configuration constants\<close>

definition BREAK_RATIO :: rat where
  "BREAK_RATIO = to_double (2 / 10)"

definition LONG_BREAK_RATIO :: rat where
  "LONG_BREAK_RATIO = to_double (6 / 10)"

definition CYCLES_BEFORE_LONG_BREAK :: int where
  "CYCLES_BEFORE_LONG_BREAK = 4"

subsection \<open>Handlers\<close>

definition totalDuration :: "component \<Rightarrow> int" where
  "totalDuration c = targetMinutes c * 60"

definition handleStartFocus :: "component \<Rightarrow> component" where
  "handleStartFocus c = c\<lparr>status := Running\<rparr>"

definition handlePause :: "component \<Rightarrow> component" where
  "handlePause c = c\<lparr>status := Paused\<rparr>"

definition handleStop :: "component \<Rightarrow> component" where
  "handleStop c =
     (let elapsed = totalDuration c - timeLeft c + flowTime c;
          c1 = c\<lparr>totalFocusTime := elapsed\<rparr>;
          c2 = (if num_mul (of_int (targetMinutes c * 60)) (to_double (8 / 10)) \<le> of_int elapsed
                then c1\<lparr>pomodoroCycles := pomodoroCycles c1 + 1\<rparr>
                else c1)
      in c2\<lparr>status := Summary\<rparr>)"

definition handleReset :: "PrismodoroProps \<Rightarrow> component \<Rightarrow> component" where
  "handleReset p c =
     c\<lparr>status := Setup,
       targetMinutes := defaultMinutes p,
       timeLeft := defaultMinutes p * 60,
       flowTime := 0,
       totalFocusTime := 0,
       pomodoroCycles := 0\<rparr>"

definition handleFinishSession :: "PrismodoroProps \<Rightarrow> component \<Rightarrow> component" where
  "handleFinishSession p c =
     handleReset p
       (if onFinish p
        then c\<lparr>onFinishCalls :=
                 onFinishCalls c @ [Math_ceil (num_div (of_int (totalFocusTime c)) 60)]\<rparr>
        else c)"

definition handleStartBreak :: "component \<Rightarrow> component" where
  "handleStartBreak c =
     (let isLongBreak = (CYCLES_BEFORE_LONG_BREAK \<le> pomodoroCycles c);
          breakRatio = (if isLongBreak then LONG_BREAK_RATIO else BREAK_RATIO);
          breakMinutes = Math_round (num_mul (of_int (targetMinutes c)) breakRatio)
      in c\<lparr>previousTargetMinutes := targetMinutes c,
           previousFocusMode := focusMode c,
           breakDuration := breakMinutes * 60,
           breakTimeLeft := breakMinutes * 60,
           status := Break\<rparr>)"

definition handleContinueAfterBreak :: "component \<Rightarrow> component" where
  "handleContinueAfterBreak c =
     (let c1 = c\<lparr>targetMinutes := previousTargetMinutes c,
                 focusMode := previousFocusMode c,
                 timeLeft := previousTargetMinutes c * 60,
                 flowTime := 0,
                 totalFocusTime := 0\<rparr>;
          c2 = (if CYCLES_BEFORE_LONG_BREAK \<le> pomodoroCycles c
                then c1\<lparr>pomodoroCycles := 0\<rparr>
                else c1)
      in c2\<lparr>status := Running\<rparr>)"

definition handleGoToSetupAfterBreak :: "PrismodoroProps \<Rightarrow> component \<Rightarrow> component" where
  "handleGoToSetupAfterBreak p c = handleReset p c"

text \<open>The inline handlers of the setup dashboard.\<close>

definition openCustom :: "component \<Rightarrow> component" where
  "openCustom c =
     (let c1 = c\<lparr>isCustomMode := True\<rparr>
      in if targetMinutes c \<in> set [15, 25, 50] then c1\<lparr>targetMinutes := 30\<rparr> else c1)"

subsection \<open>Intervals\<close>

definition clearInterval :: "nat \<Rightarrow> component \<Rightarrow> component" where
  "clearInterval i c = c\<lparr>intervals := filter (\<lambda>e. fst e \<noteq> i) (intervals c)\<rparr>"

definition setInterval :: "callback \<Rightarrow> component \<Rightarrow> component" where
  "setInterval cb c =
     c\<lparr>intervals := intervals c @ [(nextId c, cb)],
       timerRef := Some (nextId c),
       nextId := Suc (nextId c)\<rparr>"

text \<open>\<open>if (timerRef.current) { clearInterval(timerRef.current); timerRef.current = null; }\<close>\<close>

definition clearTimerRef :: "component \<Rightarrow> component" where
  "clearTimerRef c =
     (case timerRef c of
        None \<Rightarrow> c
      | Some i \<Rightarrow> (clearInterval i c)\<lparr>timerRef := None\<rparr>)"

text \<open>The bodies of the three interval callbacks of the timer effect.\<close>

fun run_callback :: "callback \<Rightarrow> component \<Rightarrow> component" where
  "run_callback (Countdown fm tm) c =
     (if timeLeft c \<le> 1 then
        (let c1 = clearTimerRef c
         in if fm = Classic then
              c1\<lparr>alarmsPlayed := Suc (alarmsPlayed c1),
                 totalFocusTime := tm * 60,
                 pomodoroCycles := pomodoroCycles c1 + 1,
                 status := Summary,
                 timeLeft := 0\<rparr>
            else c1\<lparr>status := Flow, timeLeft := 0\<rparr>)
      else c\<lparr>timeLeft := timeLeft c - 1\<rparr>)"
| "run_callback Overtime c = c\<lparr>flowTime := flowTime c + 1\<rparr>"
| "run_callback BreakTick c =
     (if breakTimeLeft c \<le> 1 then
        (clearTimerRef c)\<lparr>status := BreakEnd, breakTimeLeft := 0\<rparr>
      else c\<lparr>breakTimeLeft := breakTimeLeft c - 1\<rparr>)"

subsection \<open>Effects\<close>

text \<open>The effect with dependencies \<open>[targetMinutes, status]\<close>.\<close>

definition sync_effect :: "component \<Rightarrow> component" where
  "sync_effect c =
     (if status c = Setup \<or> status c = Idle then c\<lparr>timeLeft := targetMinutes c * 60\<rparr> else c)"

text \<open>The timer effect with dependencies \<open>[status, focusMode, targetMinutes]\<close>, and its cleanup.\<close>

definition timer_effect :: "component \<Rightarrow> component" where
  "timer_effect c =
     (if status c = Running then setInterval (Countdown (focusMode c) (targetMinutes c)) c
      else if status c = Flow then setInterval Overtime c
      else if status c = Break then setInterval BreakTick c
      else clearTimerRef c)"

definition timer_cleanup :: "component \<Rightarrow> component" where
  "timer_cleanup c = clearTimerRef c"

text \<open>
  After a render React runs the cleanup and then the body of every effect one of whose
  dependencies differs from the previous render \<open>old\<close>.
\<close>

definition run_effects :: "component \<Rightarrow> component \<Rightarrow> component" where
  "run_effects old c =
     (let c1 = (if targetMinutes c \<noteq> targetMinutes old \<or> status c \<noteq> status old
                then sync_effect c else c)
      in if status c \<noteq> status old \<or> focusMode c \<noteq> focusMode old
            \<or> targetMinutes c \<noteq> targetMinutes old
         then timer_effect (timer_cleanup c1) else c1)"

text \<open>
  Mount: the initial values of \<open>useState\<close>, then every effect body once
  (\<open>setPomodoroCycles(0)\<close>, the sync effect, the timer effect).
\<close>

definition initial :: "PrismodoroProps \<Rightarrow> component" where
  "initial p =
     \<lparr>status = Setup,
      targetMinutes = defaultMinutes p,
      timeLeft = defaultMinutes p * 60,
      flowTime = 0,
      totalFocusTime = 0,
      focusMode = Classic,
      isCustomMode = False,
      breakTimeLeft = 0,
      breakDuration = 0,
      previousTargetMinutes = defaultMinutes p,
      previousFocusMode = Classic,
      pomodoroCycles = 0,
      timerRef = None,
      intervals = [],
      nextId = 1,
      alarmsPlayed = 0,
      onFinishCalls = []\<rparr>"

definition mount :: "PrismodoroProps \<Rightarrow> component" where
  "mount p = timer_effect (sync_effect ((initial p)\<lparr>pomodoroCycles := 0\<rparr>))"

subsection \<open>Actions\<close>

text \<open>
  One constructor per control of the interface, and \<open>Tick\<close> for one second of the clock.
\<close>

datatype action =
    SetPreset int
  | OpenCustom
  | SetSlider int
  | CloseCustom
  | SetFocusMode FocusMode
  | StartFocus
  | PauseFocus
  | Stop
  | StartBreak
  | FinishSession
  | SkipBreak
  | ContinueAfterBreak
  | GoToSetupAfterBreak
  | Tick

text \<open>The conditions under which the JSX renders each control.\<close>

fun enabled :: "action \<Rightarrow> component \<Rightarrow> bool" where
  "enabled (SetPreset m) c = (status c = Setup \<and> \<not> isCustomMode c \<and> m \<in> set [15, 25, 50])"
| "enabled OpenCustom c = (status c = Setup \<and> \<not> isCustomMode c)"
| "enabled (SetSlider v) c = (status c = Setup \<and> isCustomMode c \<and> 1 \<le> v \<and> v \<le> 120)"
| "enabled CloseCustom c = (status c = Setup \<and> isCustomMode c)"
| "enabled (SetFocusMode m) c = (status c = Setup)"
| "enabled StartFocus c = (status c = Setup \<or> status c = Paused)"
| "enabled PauseFocus c = (status c = Running)"
| "enabled Stop c = (status c = Running \<or> status c = Paused \<or> status c = Flow)"
| "enabled StartBreak c = (status c = Summary)"
| "enabled FinishSession c = (status c = Summary)"
| "enabled SkipBreak c = (status c = Break)"
| "enabled ContinueAfterBreak c = (status c = BreakEnd)"
| "enabled GoToSetupAfterBreak c = (status c = BreakEnd)"
| "enabled Tick c = True"

text \<open>An interval fires: its callback runs if it is still live, then the effects.\<close>

definition fire :: "nat \<Rightarrow> component \<Rightarrow> component" where
  "fire i c =
     (case map_of (intervals c) i of
        None \<Rightarrow> c
      | Some cb \<Rightarrow> run_effects c (run_callback cb c))"

text \<open>One second passes: every interval that was live fires once, oldest first.\<close>

definition tick :: "component \<Rightarrow> component" where
  "tick c = foldl (\<lambda>c' i. fire i c') c (map fst (intervals c))"

fun handler :: "PrismodoroProps \<Rightarrow> action \<Rightarrow> component \<Rightarrow> component" where
  "handler p (SetPreset m) c = c\<lparr>targetMinutes := m\<rparr>"
| "handler p OpenCustom c = openCustom c"
| "handler p (SetSlider v) c = c\<lparr>targetMinutes := v\<rparr>"
| "handler p CloseCustom c = c\<lparr>isCustomMode := False\<rparr>"
| "handler p (SetFocusMode m) c = c\<lparr>focusMode := m\<rparr>"
| "handler p StartFocus c = handleStartFocus c"
| "handler p PauseFocus c = handlePause c"
| "handler p Stop c = handleStop c"
| "handler p StartBreak c = handleStartBreak c"
| "handler p FinishSession c = handleFinishSession p c"
| "handler p SkipBreak c = handleReset p c"
| "handler p ContinueAfterBreak c = handleContinueAfterBreak c"
| "handler p GoToSetupAfterBreak c = handleGoToSetupAfterBreak p c"
| "handler p Tick c = c"

definition step :: "PrismodoroProps \<Rightarrow> action \<Rightarrow> component \<Rightarrow> component" where
  "step p a c = (if a = Tick then tick c else run_effects c (handler p a c))"

text \<open>A run from mount; an action whose control is not rendered cannot be taken.\<close>

fun exec :: "PrismodoroProps \<Rightarrow> component \<Rightarrow> action list \<Rightarrow> component option" where
  "exec p c [] = Some c"
| "exec p c (a # as) = (if enabled a c then exec p (step p a c) as else None)"

inductive reachable :: "PrismodoroProps \<Rightarrow> component \<Rightarrow> bool" for p where
  reachable_mount: "reachable p (mount p)"
| reachable_step: "reachable p c \<Longrightarrow> enabled a c \<Longrightarrow> reachable p (step p a c)"

subsection \<open>Invariants and observations\<close>

text \<open>The callback the timer effect registers in each phase, if any.\<close>

definition expected_callback :: "component \<Rightarrow> callback option" where
  "expected_callback c =
     (case status c of
        Running \<Rightarrow> Some (Countdown (focusMode c) (targetMinutes c))
      | Flow \<Rightarrow> Some Overtime
      | Break \<Rightarrow> Some BreakTick
      | _ \<Rightarrow> None)"

text \<open>
  The timer discipline: the live intervals are exactly the one the timer effect registers
  for the current phase, \<open>timerRef\<close> holds its id, and every live id is older than
  \<open>nextId\<close>.
\<close>

definition timer_ok :: "component \<Rightarrow> bool" where
  "timer_ok c =
     (map snd (intervals c) = (case expected_callback c of None \<Rightarrow> [] | Some cb \<Rightarrow> [cb])
      \<and> map fst (intervals c) = (case timerRef c of None \<Rightarrow> [] | Some i \<Rightarrow> [i])
      \<and> (\<forall>i \<in> set (map fst (intervals c)). i < nextId c))"

text \<open>The ranges of the session fields that every run from a valid configuration keeps.\<close>

definition session_ok :: "component \<Rightarrow> bool" where
  "session_ok c =
     (1 \<le> targetMinutes c \<and> targetMinutes c \<le> 120
      \<and> 1 \<le> previousTargetMinutes c \<and> previousTargetMinutes c \<le> 120
      \<and> 0 \<le> timeLeft c \<and> timeLeft c \<le> targetMinutes c * 60
      \<and> 0 \<le> flowTime c
      \<and> (status c = Flow \<longrightarrow> timeLeft c = 0))"

text \<open>The state variables alone, without the interval store.\<close>

definition session_of :: "component \<Rightarrow> component" where
  "session_of c = c\<lparr>timerRef := None, intervals := [], nextId := 0\<rparr>"

primrec ticks :: "nat \<Rightarrow> component \<Rightarrow> component" where
  "ticks 0 c = c"
| "ticks (Suc n) c = ticks n (tick c)"

text \<open>Configurations used in the examples.\<close>

definition props_1min :: PrismodoroProps where
  "props_1min = \<lparr>defaultMinutes = 1, onFinish = True\<rparr>"

definition props_25min :: PrismodoroProps where
  "props_25min = \<lparr>defaultMinutes = 25, onFinish = True\<rparr>"

definition props_500min :: PrismodoroProps where
  "props_500min = \<lparr>defaultMinutes = 500, onFinish = True\<rparr>"

text \<open>The state after a list of actions from mount.\<close>

definition run :: "PrismodoroProps \<Rightarrow> action list \<Rightarrow> component" where
  "run p as = foldl (\<lambda>c a. step p a c) (mount p) as"

section \<open>Binary64 rounding\<close>

lemma pow2_powi: "pow2 e = 2 powi e"
  by (simp add: pow2_def power_int_def inverse_eq_divide power_one_over)

lemma pow2_pos: "0 < pow2 e"
  by (simp add: pow2_powi)

lemma pow2_add: "pow2 (a + b) = pow2 a * pow2 b"
  by (simp add: pow2_powi power_int_add)

lemma pow2_mono: "a \<le> b \<Longrightarrow> pow2 a \<le> pow2 b"
  by (simp add: pow2_powi power_int_increasing)

lemma pow2_less_iff: "pow2 a < pow2 b \<longleftrightarrow> a < b"
proof
  assume "pow2 a < pow2 b"
  then show "a < b" using pow2_mono[of b a] by (cases "a < b") simp_all
next
  assume "a < b"
  then show "pow2 a < pow2 b" by (simp add: pow2_powi power_int_strict_increasing)
qed

lemma quotient_of_pos:
  assumes "0 < x"
  shows "0 < fst (quotient_of x)" and "0 < snd (quotient_of x)"
    and "x = of_int (fst (quotient_of x)) / of_int (snd (quotient_of x))"
proof -
  obtain p q where pq: "quotient_of x = (p, q)" by (cases "quotient_of x")
  then have q: "0 < q" by (rule quotient_of_denom_pos)
  have x: "x = of_int p / of_int q" using pq by (rule quotient_of_div)
  with assms q have "0 < p" by (simp add: zero_less_divide_iff)
  with q x pq show "0 < fst (quotient_of x)" "0 < snd (quotient_of x)"
    "x = of_int (fst (quotient_of x)) / of_int (snd (quotient_of x))" by simp_all
qed

lemma int_between_pow2:
  assumes "0 < (p::int)"
  shows "pow2 (bitlen p - 1) \<le> of_int p" and "of_int p < pow2 (bitlen p)"
proof -
  from bitlen_bounds[OF assms] have a: "2 ^ nat (bitlen p - 1) \<le> p" and b: "p < 2 ^ nat (bitlen p)"
    by simp_all
  have ge: "1 \<le> bitlen p" using assms bitlen_eq_zero_iff[of p] bitlen_nonneg[of p] by linarith
  have "(of_int (2 ^ nat (bitlen p - 1)) :: rat) \<le> of_int p" using a by (simp only: of_int_le_iff)
  then show "pow2 (bitlen p - 1) \<le> of_int p" using ge by (simp add: pow2_def)
  have "(of_int p :: rat) < of_int (2 ^ nat (bitlen p))" using b by (simp only: of_int_less_iff)
  then show "of_int p < pow2 (bitlen p)" using ge by (simp add: pow2_def)
qed

lemma floor_log2_bounds:
  assumes "0 < x"
  shows "pow2 (floor_log2 x) \<le> x" and "x < pow2 (floor_log2 x + 1)"
proof -
  define p where "p = fst (quotient_of x)"
  define q where "q = snd (quotient_of x)"
  define d where "d = bitlen p - bitlen q"
  have p: "0 < p" and q: "0 < q" and x: "x = of_int p / of_int q"
    using quotient_of_pos[OF assms] by (simp_all add: p_def q_def)
  have qr: "(0::rat) < of_int q" using q by simp
  have lo: "pow2 (d - 1) * of_int q < of_int p"
  proof -
    have "pow2 (d - 1) * of_int q < pow2 (d - 1) * pow2 (bitlen q)"
      using int_between_pow2(2)[OF q] pow2_pos[of "d - 1"] by simp
    also have "\<dots> = pow2 (bitlen p - 1)" by (simp add: d_def flip: pow2_add)
    also have "\<dots> \<le> of_int p" by (rule int_between_pow2(1)[OF p])
    finally show ?thesis .
  qed
  have hi: "of_int p < pow2 (d + 1) * of_int q"
  proof -
    have "of_int p < pow2 (bitlen p)" by (rule int_between_pow2(2)[OF p])
    also have "\<dots> = pow2 (d + 1) * pow2 (bitlen q - 1)" by (simp add: d_def flip: pow2_add)
    also have "\<dots> \<le> pow2 (d + 1) * of_int q"
      using int_between_pow2(1)[OF q] pow2_pos[of "d + 1"] by simp
    finally show ?thesis .
  qed
  have lo': "pow2 (d - 1) < x" using lo qr by (simp add: x pos_less_divide_eq)
  have hi': "x < pow2 (d + 1)" using hi qr by (simp add: x pos_divide_less_eq)
  have fl: "floor_log2 x = (if pow2 d \<le> x then d else d - 1)"
    by (simp add: floor_log2_def Let_def d_def p_def q_def)
  show "pow2 (floor_log2 x) \<le> x" using lo' by (simp add: fl)
  show "x < pow2 (floor_log2 x + 1)" using hi' by (auto simp add: fl)
qed

lemma floor_log2_unique:
  assumes "pow2 k \<le> x" and "x < pow2 (k + 1)"
  shows "floor_log2 x = k"
proof -
  have x: "0 < x" using assms(1) pow2_pos[of k] by linarith
  have "pow2 (floor_log2 x) < pow2 (k + 1)"
    using floor_log2_bounds(1)[OF x] assms(2) by linarith
  moreover have "pow2 k < pow2 (floor_log2 x + 1)"
    using floor_log2_bounds(2)[OF x] assms(1) by linarith
  ultimately show ?thesis by (simp add: pow2_less_iff)
qed

lemma round_ties_even_near:
  assumes "\<bar>r - of_int m\<bar> < 1 / 2"
  shows "round_ties_even r = m"
proof (cases "of_int m \<le> r")
  case True
  then have f: "\<lfloor>r\<rfloor> = m" using assms by (intro floor_unique) (simp_all add: abs_if split: if_splits)
  show ?thesis using assms True by (simp add: round_ties_even_def Let_def f)
next
  case False
  then have f: "\<lfloor>r\<rfloor> = m - 1" using assms by (intro floor_unique) (simp_all add: abs_if split: if_splits)
  show ?thesis using assms False by (simp add: round_ties_even_def Let_def f)
qed

lemma round_ties_even_error: "\<bar>of_int (round_ties_even r) - r\<bar> \<le> 1 / 2"
proof -
  define f where "f = \<lfloor>r\<rfloor>"
  have "of_int f \<le> r" "r < of_int f + 1" unfolding f_def by linarith+
  then show ?thesis
    unfolding round_ties_even_def Let_def f_def[symmetric] by (auto simp add: abs_if)
qed

lemma to_double_exact:
  assumes "x \<noteq> 0"
    and "y = of_int m * pow2 (floor_log2 \<bar>x\<bar> - 52)"
    and "\<bar>x - y\<bar> < pow2 (floor_log2 \<bar>x\<bar> - 52) / 2"
  shows "to_double x = y"
proof -
  define e where "e = floor_log2 \<bar>x\<bar> - 52"
  have pe: "0 < pow2 e" by (rule pow2_pos)
  have "x / pow2 e - of_int m = (x - y) / pow2 e"
    using pe by (simp add: assms(2) e_def[symmetric] diff_divide_distrib)
  then have "\<bar>x / pow2 e - of_int m\<bar> = \<bar>x - y\<bar> / pow2 e"
    using pe by (simp add: abs_divide)
  also have "\<dots> < 1 / 2" using assms(3) pe by (simp add: e_def[symmetric] pos_divide_less_eq)
  finally have "round_ties_even (x / pow2 e) = m" by (rule round_ties_even_near)
  then show ?thesis using assms(1,2) by (simp add: to_double_def Let_def e_def[symmetric])
qed

lemma to_double_error:
  "\<bar>to_double x - x\<bar> \<le> \<bar>x\<bar> / 2 ^ 53"
proof (cases "x = 0")
  case True then show ?thesis by (simp add: to_double_def)
next
  case False
  define e where "e = floor_log2 \<bar>x\<bar> - 52"
  have pe: "0 < pow2 e" by (rule pow2_pos)
  have ax: "0 < \<bar>x\<bar>" using False by simp
  have "to_double x - x = (of_int (round_ties_even (x / pow2 e)) - x / pow2 e) * pow2 e"
    using False pe by (simp add: to_double_def Let_def e_def[symmetric] algebra_simps)
  then have "\<bar>to_double x - x\<bar> = \<bar>of_int (round_ties_even (x / pow2 e)) - x / pow2 e\<bar> * pow2 e"
    using pe by (simp add: abs_mult)
  also have "\<dots> \<le> 1 / 2 * pow2 e"
    using round_ties_even_error[of "x / pow2 e"] pe by (intro mult_right_mono) simp_all
  also have "pow2 e = pow2 (floor_log2 \<bar>x\<bar>) / 2 ^ 52"
    by (simp add: e_def pow2_powi power_int_diff)
  also have "1 / 2 * (pow2 (floor_log2 \<bar>x\<bar>) / 2 ^ 52) \<le> 1 / 2 * (\<bar>x\<bar> / 2 ^ 52)"
    using floor_log2_bounds(1)[OF ax] by (simp add: divide_right_mono)
  finally show ?thesis by simp
qed

lemma to_double_of_int:
  assumes "\<bar>k\<bar> < 2 ^ 53"
  shows "to_double (of_int k) = of_int k"
proof (cases "k = 0")
  case True then show ?thesis by (simp add: to_double_def)
next
  case False
  define x :: rat where "x = of_int k"
  define e where "e = floor_log2 \<bar>x\<bar> - 52"
  have ax: "0 < \<bar>x\<bar>" using False by (simp add: x_def)
  have "(of_int \<bar>k\<bar> :: rat) < of_int (2 ^ 53)" using assms by (simp only: of_int_less_iff)
  then have "\<bar>x\<bar> < pow2 53" by (simp add: x_def pow2_def)
  then have "pow2 (floor_log2 \<bar>x\<bar>) < pow2 53" using floor_log2_bounds(1)[OF ax] by linarith
  then have e: "e \<le> 0" by (simp add: pow2_less_iff e_def)
  have y: "x = of_int (k * 2 ^ nat (- e)) * pow2 (floor_log2 \<bar>x\<bar> - 52)"
    using e unfolding e_def[symmetric] by (simp add: x_def pow2_def)
  have x0: "x \<noteq> 0" using ax by simp
  have d: "\<bar>x - x\<bar> < pow2 (floor_log2 \<bar>x\<bar> - 52) / 2"
    using pow2_pos[of "floor_log2 \<bar>x\<bar> - 52"] by simp
  have "to_double x = x" by (rule to_double_exact[OF x0 y d])
  then show ?thesis by (simp add: x_def)
qed


lemma to_double_near_int:
  assumes "0 < M" and "M < 2 ^ 53"
  shows "to_double (of_int M * (1 + 1 / 2 ^ 54)) = of_int M"
proof -
  define x :: rat where "x = of_int M * (1 + 1 / 2 ^ 54)"
  define k where "k = floor_log2 (of_int M)"
  have M0: "(0::rat) < of_int M" using assms(1) by simp
  have Mr: "(of_int M :: rat) < of_int (2 ^ 53)" using assms(2) by (simp only: of_int_less_iff)
  have lo: "pow2 k \<le> of_int M" and hi: "of_int M < pow2 (k + 1)"
    using floor_log2_bounds[OF M0] by (simp_all add: k_def)
  have "1 \<le> M" using assms(1) by simp
  then have "1 \<le> (of_int M :: rat)" by simp
  have "pow2 k < pow2 53" using lo Mr by (simp add: pow2_def)
  then have k52: "k \<le> 52" by (simp add: pow2_less_iff)
  have "pow2 0 < pow2 (k + 1)" using hi \<open>1 \<le> of_int M\<close> by (simp add: pow2_def)
  then have k0: "0 \<le> k" by (simp add: pow2_less_iff)
  have "(of_int M :: rat) < of_int (2 ^ nat (k + 1))" using hi k0 by (simp add: pow2_def)
  then have "M < 2 ^ nat (k + 1)" by (simp only: of_int_less_iff)
  then have "M + 1 \<le> 2 ^ nat (k + 1)" by simp
  then have "(of_int (M + 1) :: rat) \<le> of_int (2 ^ nat (k + 1))" by (simp only: of_int_le_iff)
  then have M1: "of_int M + 1 \<le> pow2 (k + 1)" using k0 by (simp add: pow2_def)
  have xM: "x = of_int M + of_int M / 2 ^ 54" by (simp add: x_def algebra_simps)
  have small: "(of_int M :: rat) / 2 ^ 54 < 1" using Mr by simp
  have xpos: "0 < x" using M0 by (simp add: xM add_pos_pos)
  have "pow2 k \<le> x" using lo M0 by (simp add: xM add_increasing2)
  moreover have "x < pow2 (k + 1)" using M1 small by (simp add: xM)
  ultimately have fl: "floor_log2 x = k" by (rule floor_log2_unique)
  have ax: "\<bar>x\<bar> = x" using xpos by simp
  have y: "of_int M = of_int (M * 2 ^ nat (52 - k)) * pow2 (floor_log2 \<bar>x\<bar> - 52)"
    using k52 by (simp add: ax fl pow2_def)
  have "of_int M / 2 ^ 54 < pow2 (k + 1) / 2 ^ 54" using hi by (simp add: divide_strict_right_mono)
  also have "\<dots> = pow2 (k - 52) / 2" by (simp add: pow2_powi power_int_diff power_int_add)
  finally have lt: "of_int M / 2 ^ 54 < pow2 (k - 52) / 2" .
  have "\<bar>x - of_int M\<bar> = of_int M / 2 ^ 54" using M0 by (simp add: xM)
  then have d: "\<bar>x - of_int M\<bar> < pow2 (floor_log2 \<bar>x\<bar> - 52) / 2"
    using lt by (simp only: ax fl)
  have "x \<noteq> 0" using xpos by simp
  then show ?thesis unfolding x_def[symmetric] using y d by (rule to_double_exact)
qed

lemma to_double_eight_tenths: "to_double (8 / 10) = 4 / 5 * (1 + 1 / 2 ^ 54)"
  by code_simp

lemma threshold_exact:
  assumes "0 \<le> t" and "t < 2 ^ 47"
  shows "num_mul (of_int (t * 60)) (to_double (8 / 10)) = of_int (48 * t)"
proof (cases "t = 0")
  case True then show ?thesis by (simp add: num_mul_def to_double_def)
next
  case False
  have "of_int (t * 60) * to_double (8 / 10) = (of_int (48 * t) :: rat) * (1 + 1 / 2 ^ 54)"
    unfolding to_double_eight_tenths by simp
  moreover have "0 < 48 * t" "48 * t < 2 ^ 53" using assms False by simp_all
  ultimately show ?thesis by (simp only: num_mul_def to_double_near_int)
qed

lemma ratio_product_error:
  assumes "0 \<le> t" and "t \<le> 2 ^ 40" and "0 \<le> q" and "q \<le> 1"
  shows "\<bar>num_mul (of_int t) (to_double q) - of_int t * q\<bar> \<le> 1 / 2 ^ 11"
proof -
  define c where "c = to_double q"
  define x where "x = of_int t * c"
  have tr: "(0::rat) \<le> of_int t" "(of_int t :: rat) \<le> of_int (2 ^ 40)"
    using assms(1,2) by (simp_all only: of_int_le_iff of_int_0_le_iff)
  have "\<bar>c - q\<bar> \<le> \<bar>q\<bar> / 2 ^ 53" unfolding c_def by (rule to_double_error)
  then have cq: "\<bar>c - q\<bar> \<le> 1 / 2 ^ 53" using assms(3,4) by (simp add: field_simps) 
  have "\<bar>x - of_int t * q\<bar> = of_int t * \<bar>c - q\<bar>"
    using tr(1) by (simp add: x_def abs_mult flip: right_diff_distrib)
  also have "\<dots> \<le> of_int t * (1 / 2 ^ 53)" using cq tr(1) by (rule mult_left_mono)
  also have "\<dots> \<le> 2 ^ 40 * (1 / 2 ^ 53)" using tr(2) by (intro mult_right_mono) simp_all
  finally have e1: "\<bar>x - of_int t * q\<bar> \<le> 1 / 2 ^ 13" by simp
  have "of_int t * q \<le> of_int t * 1" using assms(4) tr(1) by (rule mult_left_mono)
  then have tq: "of_int t * q \<le> 2 ^ 40" using tr(2) by simp
  have tq0: "0 \<le> of_int t * q" using tr(1) assms(3) by simp
  have "x - of_int t * q \<le> 1 / 2 ^ 13" "- (x - of_int t * q) \<le> 1 / 2 ^ 13"
    using e1 by (simp_all only: abs_le_iff)
  then have "x \<le> 2 ^ 41" "- x \<le> 2 ^ 41" using tq tq0 by simp_all
  then have xb: "\<bar>x\<bar> \<le> 2 ^ 41" by (simp only: abs_le_iff)
  have "\<bar>to_double x - x\<bar> \<le> \<bar>x\<bar> / 2 ^ 53" by (rule to_double_error)
  also have "\<dots> \<le> 2 ^ 41 / 2 ^ 53" using xb by (simp add: divide_right_mono)
  finally have e2: "\<bar>to_double x - x\<bar> \<le> 1 / 2 ^ 12" by simp
  have "\<bar>(to_double x - x) + (x - of_int t * q)\<bar>
          \<le> \<bar>to_double x - x\<bar> + \<bar>x - of_int t * q\<bar>"
    by (rule abs_triangle_ineq)
  then have "\<bar>to_double x - of_int t * q\<bar> \<le> \<bar>to_double x - x\<bar> + \<bar>x - of_int t * q\<bar>"
    by simp
  also have "\<dots> \<le> 1 / 2 ^ 12 + 1 / 2 ^ 13" using e2 e1 by (rule add_mono)
  also have "\<dots> \<le> 1 / 2 ^ 11" by simp
  finally show ?thesis unfolding num_mul_def c_def[symmetric] x_def[symmetric] .
qed

lemma Math_round_fifths:
  assumes "\<bar>y - of_int n / 5\<bar> \<le> 1 / 2 ^ 11"
  shows "Math_round y = (2 * n + 5) div 10"
proof -
  define k where "k = (2 * n + 5) div 10"
  define r where "r = (2 * n + 5) mod 10"
  have n: "2 * n + 5 = 10 * k + r" by (simp add: k_def r_def)
  have "odd r" unfolding r_def by presburger
  moreover have "0 \<le> r" "r < 10" by (simp_all add: r_def)
  ultimately have r: "1 \<le> r" "r \<le> 9" by presburger+
  have "(of_int (2 * n + 5) :: rat) = of_int (10 * k + r)" by (simp only: n)
  then have nk: "(of_int n :: rat) / 5 + 1 / 2 = of_int k + of_int r / 10" by (simp add: field_simps)
  have rr: "(1::rat) \<le> of_int r" "(of_int r :: rat) \<le> 9" using r by simp_all
  have "y - of_int n / 5 \<le> 1 / 2 ^ 11" "- (y - of_int n / 5) \<le> 1 / 2 ^ 11"
    using assms by (simp_all only: abs_le_iff)
  then have "of_int k \<le> y + 1 / 2" "y + 1 / 2 < of_int k + 1"
    using nk rr by simp_all
  then show ?thesis unfolding Math_round_def k_def[symmetric] by (intro floor_unique)
qed

lemma break_minutes_short:
  assumes "0 \<le> t" and "t \<le> 2 ^ 40"
  shows "Math_round (num_mul (of_int t) BREAK_RATIO) = (2 * t + 5) div 10"
proof -
  have "\<bar>num_mul (of_int t) (to_double (2 / 10)) - of_int t * (2 / 10)\<bar> \<le> 1 / 2 ^ 11"
    using assms by (intro ratio_product_error) simp_all
  moreover have "(of_int t :: rat) * (2 / 10) = of_int t / 5" by simp
  ultimately have "\<bar>num_mul (of_int t) (to_double (2 / 10)) - of_int t / 5\<bar> \<le> 1 / 2 ^ 11"
    by (simp only:)
  then show ?thesis unfolding BREAK_RATIO_def by (rule Math_round_fifths)
qed

lemma break_minutes_long:
  assumes "0 \<le> t" and "t \<le> 2 ^ 40"
  shows "Math_round (num_mul (of_int t) LONG_BREAK_RATIO) = (6 * t + 5) div 10"
proof -
  have "\<bar>num_mul (of_int t) (to_double (6 / 10)) - of_int t * (6 / 10)\<bar> \<le> 1 / 2 ^ 11"
    using assms by (intro ratio_product_error) simp_all
  moreover have "(of_int t :: rat) * (6 / 10) = of_int (3 * t) / 5" by simp
  ultimately have "\<bar>num_mul (of_int t) (to_double (6 / 10)) - of_int (3 * t) / 5\<bar> \<le> 1 / 2 ^ 11"
    by (simp only:)
  then have "Math_round (num_mul (of_int t) LONG_BREAK_RATIO) = (2 * (3 * t) + 5) div 10"
    unfolding LONG_BREAK_RATIO_def by (rule Math_round_fifths)
  then show ?thesis by simp
qed

lemma ceil_minutes:
  assumes "0 \<le> n" and "n < 2 ^ 53"
  shows "Math_ceil (num_div (of_int n) 60) = \<lceil>(of_int n :: rat) / 60\<rceil>"
proof (cases "n mod 60 = 0")
  case True
  then obtain k where k: "n = 60 * k" by auto
  have "\<bar>k\<bar> < 2 ^ 53" using assms k by simp
  then show ?thesis by (simp add: Math_ceil_def num_div_def k to_double_of_int)
next
  case False
  define k where "k = n div 60"
  define r where "r = n mod 60"
  define x :: rat where "x = of_int n / 60"
  have n: "n = 60 * k + r" by (simp add: k_def r_def)
  have "1 \<le> r \<and> r \<le> 59" using False unfolding r_def by presburger
  then have r: "1 \<le> r" "r \<le> 59" by simp_all
  have rr: "(1::rat) \<le> of_int r" "(of_int r :: rat) \<le> 59" using r by simp_all
  have xk: "x = of_int k + of_int r / 60" by (simp add: x_def n)
  have nr: "(0::rat) \<le> of_int n" "(of_int n :: rat) < of_int (2 ^ 53)"
    using assms by (simp_all only: of_int_less_iff of_int_0_le_iff)
  have "\<bar>to_double x - x\<bar> \<le> \<bar>x\<bar> / 2 ^ 53" by (rule to_double_error)
  also have "\<bar>x\<bar> / 2 ^ 53 < 1 / 60" using nr by (simp add: x_def)
  finally have e: "\<bar>to_double x - x\<bar> < 1 / 60" .
  have "to_double x - x < 1 / 60" "- (to_double x - x) < 1 / 60"
    using e by (simp_all only: abs_less_iff)
  then have a: "of_int k < to_double x" "to_double x \<le> of_int k + 1"
    using xk rr by simp_all
  have b: "of_int k < x" "x \<le> of_int k + 1" using xk rr by simp_all
  have "\<lceil>to_double x\<rceil> = k + 1" using a by (intro ceiling_unique) simp_all
  moreover have "\<lceil>x\<rceil> = k + 1" using b by (intro ceiling_unique) simp_all
  ultimately show ?thesis by (simp add: Math_ceil_def num_div_def x_def)
qed

section \<open>The effects and the interval store\<close>

subsection \<open>What the effects leave unchanged\<close>

lemma clearTimerRef_fields [simp]:
  "status (clearTimerRef c) = status c"
  "targetMinutes (clearTimerRef c) = targetMinutes c"
  "timeLeft (clearTimerRef c) = timeLeft c"
  "flowTime (clearTimerRef c) = flowTime c"
  "totalFocusTime (clearTimerRef c) = totalFocusTime c"
  "focusMode (clearTimerRef c) = focusMode c"
  "isCustomMode (clearTimerRef c) = isCustomMode c"
  "breakTimeLeft (clearTimerRef c) = breakTimeLeft c"
  "breakDuration (clearTimerRef c) = breakDuration c"
  "previousTargetMinutes (clearTimerRef c) = previousTargetMinutes c"
  "previousFocusMode (clearTimerRef c) = previousFocusMode c"
  "pomodoroCycles (clearTimerRef c) = pomodoroCycles c"
  "alarmsPlayed (clearTimerRef c) = alarmsPlayed c"
  "onFinishCalls (clearTimerRef c) = onFinishCalls c"
  "nextId (clearTimerRef c) = nextId c"
  "timerRef (clearTimerRef c) = None"
  by (simp_all add: clearTimerRef_def clearInterval_def split: option.splits)

lemma setInterval_fields [simp]:
  "status (setInterval cb c) = status c"
  "targetMinutes (setInterval cb c) = targetMinutes c"
  "timeLeft (setInterval cb c) = timeLeft c"
  "flowTime (setInterval cb c) = flowTime c"
  "totalFocusTime (setInterval cb c) = totalFocusTime c"
  "focusMode (setInterval cb c) = focusMode c"
  "isCustomMode (setInterval cb c) = isCustomMode c"
  "breakTimeLeft (setInterval cb c) = breakTimeLeft c"
  "breakDuration (setInterval cb c) = breakDuration c"
  "previousTargetMinutes (setInterval cb c) = previousTargetMinutes c"
  "previousFocusMode (setInterval cb c) = previousFocusMode c"
  "pomodoroCycles (setInterval cb c) = pomodoroCycles c"
  "alarmsPlayed (setInterval cb c) = alarmsPlayed c"
  "onFinishCalls (setInterval cb c) = onFinishCalls c"
  "nextId (setInterval cb c) = Suc (nextId c)"
  "timerRef (setInterval cb c) = Some (nextId c)"
  "intervals (setInterval cb c) = intervals c @ [(nextId c, cb)]"
  by (simp_all add: setInterval_def)

lemma timer_effect_fields [simp]:
  "status (timer_effect c) = status c"
  "targetMinutes (timer_effect c) = targetMinutes c"
  "timeLeft (timer_effect c) = timeLeft c"
  "flowTime (timer_effect c) = flowTime c"
  "totalFocusTime (timer_effect c) = totalFocusTime c"
  "focusMode (timer_effect c) = focusMode c"
  "isCustomMode (timer_effect c) = isCustomMode c"
  "breakTimeLeft (timer_effect c) = breakTimeLeft c"
  "breakDuration (timer_effect c) = breakDuration c"
  "previousTargetMinutes (timer_effect c) = previousTargetMinutes c"
  "previousFocusMode (timer_effect c) = previousFocusMode c"
  "pomodoroCycles (timer_effect c) = pomodoroCycles c"
  "alarmsPlayed (timer_effect c) = alarmsPlayed c"
  "onFinishCalls (timer_effect c) = onFinishCalls c"
  by (simp_all add: timer_effect_def)

lemma sync_effect_fields [simp]:
  "status (sync_effect c) = status c"
  "targetMinutes (sync_effect c) = targetMinutes c"
  "flowTime (sync_effect c) = flowTime c"
  "totalFocusTime (sync_effect c) = totalFocusTime c"
  "focusMode (sync_effect c) = focusMode c"
  "isCustomMode (sync_effect c) = isCustomMode c"
  "breakTimeLeft (sync_effect c) = breakTimeLeft c"
  "breakDuration (sync_effect c) = breakDuration c"
  "previousTargetMinutes (sync_effect c) = previousTargetMinutes c"
  "previousFocusMode (sync_effect c) = previousFocusMode c"
  "pomodoroCycles (sync_effect c) = pomodoroCycles c"
  "alarmsPlayed (sync_effect c) = alarmsPlayed c"
  "onFinishCalls (sync_effect c) = onFinishCalls c"
  "timerRef (sync_effect c) = timerRef c"
  "intervals (sync_effect c) = intervals c"
  "nextId (sync_effect c) = nextId c"
  by (simp_all add: sync_effect_def)

lemma run_effects_fields [simp]:
  "status (run_effects old c) = status c"
  "targetMinutes (run_effects old c) = targetMinutes c"
  "flowTime (run_effects old c) = flowTime c"
  "totalFocusTime (run_effects old c) = totalFocusTime c"
  "focusMode (run_effects old c) = focusMode c"
  "isCustomMode (run_effects old c) = isCustomMode c"
  "breakTimeLeft (run_effects old c) = breakTimeLeft c"
  "breakDuration (run_effects old c) = breakDuration c"
  "previousTargetMinutes (run_effects old c) = previousTargetMinutes c"
  "previousFocusMode (run_effects old c) = previousFocusMode c"
  "pomodoroCycles (run_effects old c) = pomodoroCycles c"
  "alarmsPlayed (run_effects old c) = alarmsPlayed c"
  "onFinishCalls (run_effects old c) = onFinishCalls c"
  by (simp_all add: run_effects_def timer_cleanup_def Let_def)

lemma run_effects_timeLeft:
  "timeLeft (run_effects old c) =
     (if (targetMinutes c \<noteq> targetMinutes old \<or> status c \<noteq> status old)
         \<and> (status c = Setup \<or> status c = Idle)
      then targetMinutes c * 60 else timeLeft c)"
  by (auto simp add: run_effects_def timer_cleanup_def Let_def sync_effect_def)

subsection \<open>The timer discipline is kept by every step\<close>

lemma timer_ok_fresh:
  assumes "timerRef c = None" and "intervals c = []"
  shows "timer_ok (timer_effect c)"
  using assms
  by (cases "status c")
     (simp_all add: timer_ok_def timer_effect_def expected_callback_def clearTimerRef_def)

lemma clearTimerRef_all:
  assumes "map fst (intervals c) = (case timerRef c of None \<Rightarrow> [] | Some i \<Rightarrow> [i])"
  shows "intervals (clearTimerRef c) = []"
  using assms
  by (cases "timerRef c"; cases "intervals c")
     (auto simp add: clearTimerRef_def clearInterval_def)

lemma timer_ok_cong:
  assumes "timer_ok old"
    and "timerRef c = timerRef old" and "intervals c = intervals old" and "nextId c = nextId old"
    and "status c = status old" and "focusMode c = focusMode old"
    and "targetMinutes c = targetMinutes old"
  shows "timer_ok c"
proof -
  have e: "expected_callback c = expected_callback old"
    using assms by (cases "status old") (simp_all add: expected_callback_def)
  show ?thesis
    unfolding timer_ok_def assms(2-4) e using assms(1)[unfolded timer_ok_def] .
qed

lemma run_effects_changed:
  assumes "status c \<noteq> status old \<or> focusMode c \<noteq> focusMode old
            \<or> targetMinutes c \<noteq> targetMinutes old"
    and "map fst (intervals c) = (case timerRef c of None \<Rightarrow> [] | Some i \<Rightarrow> [i])"
  shows "timer_ok (run_effects old c)"
    and "\<forall>i \<in> set (map fst (intervals (run_effects old c))). nextId c \<le> i"
proof -
  define c1 where "c1 = (if targetMinutes c \<noteq> targetMinutes old \<or> status c \<noteq> status old
                then sync_effect c else c)"
  have c1: "timerRef c1 = timerRef c" "intervals c1 = intervals c" "nextId c1 = nextId c"
    by (simp_all add: c1_def)
  have r: "run_effects old c = timer_effect (clearTimerRef c1)"
    using assms(1) by (simp add: run_effects_def Let_def c1_def timer_cleanup_def)
  have e: "intervals (clearTimerRef c1) = []"
    using assms(2) by (intro clearTimerRef_all) (simp add: c1)
  show "timer_ok (run_effects old c)" unfolding r using e by (intro timer_ok_fresh) simp_all
  show "\<forall>i \<in> set (map fst (intervals (run_effects old c))). nextId c \<le> i"
    unfolding r using e
    by (simp add: timer_effect_def c1 clearTimerRef_all)
qed

lemma timer_ok_run_effects:
  assumes "timer_ok old"
    and "timerRef c = timerRef old" and "intervals c = intervals old" and "nextId c = nextId old"
  shows "timer_ok (run_effects old c)"
proof (cases "status c \<noteq> status old \<or> focusMode c \<noteq> focusMode old
              \<or> targetMinutes c \<noteq> targetMinutes old")
  case True
  moreover have "map fst (intervals c) = (case timerRef c of None \<Rightarrow> [] | Some i \<Rightarrow> [i])"
    using assms by (simp add: timer_ok_def)
  ultimately show ?thesis by (rule run_effects_changed(1))
next
  case False
  then have "run_effects old c = c" by (simp add: run_effects_def Let_def)
  moreover have "timer_ok c" using assms False by (intro timer_ok_cong[of old c]) simp_all
  ultimately show ?thesis by simp
qed


lemma tick_timer_ok:
  assumes "timer_ok c"
  shows "tick c = (case expected_callback c of
                     None \<Rightarrow> c
                   | Some cb \<Rightarrow> run_effects c (run_callback cb c))"
proof (cases "expected_callback c")
  case None
  then have "intervals c = []" using assms by (simp add: timer_ok_def)
  then show ?thesis using None by (simp add: tick_def)
next
  case (Some cb)
  then have "map snd (intervals c) = [cb]" using assms by (simp add: timer_ok_def)
  then obtain i where "intervals c = [(i, cb)]" by (cases "intervals c") auto
  then show ?thesis using Some by (simp add: tick_def fire_def)
qed

lemma run_callback_timers:
  assumes "timer_ok c" and "expected_callback c = Some cb"
  shows "(status (run_callback cb c) = status c \<and> focusMode (run_callback cb c) = focusMode c
          \<and> targetMinutes (run_callback cb c) = targetMinutes c
          \<and> timerRef (run_callback cb c) = timerRef c
          \<and> intervals (run_callback cb c) = intervals c
          \<and> nextId (run_callback cb c) = nextId c)
         \<or> (status (run_callback cb c) \<noteq> status c
          \<and> timerRef (run_callback cb c) = None
          \<and> intervals (run_callback cb c) = []
          \<and> nextId (run_callback cb c) = nextId c)"
proof -
  have m: "map fst (intervals c) = (case timerRef c of None \<Rightarrow> [] | Some i \<Rightarrow> [i])"
    using assms(1) by (simp add: timer_ok_def)
  have e: "intervals (clearTimerRef c) = []" using m by (rule clearTimerRef_all)
  show ?thesis
    using assms(2) e
    by (cases "status c"; cases cb) (auto simp add: expected_callback_def Let_def)
qed

lemma timer_ok_tick:
  assumes "timer_ok c"
  shows "timer_ok (tick c)"
proof (cases "expected_callback c")
  case None
  then show ?thesis using assms by (simp add: tick_timer_ok)
next
  case (Some cb)
  define c' where "c' = run_callback cb c"
  have t: "tick c = run_effects c c'" using assms Some by (simp add: tick_timer_ok c'_def)
  from run_callback_timers[OF assms Some] show ?thesis
  proof
    assume "status (run_callback cb c) = status c \<and> focusMode (run_callback cb c) = focusMode c
          \<and> targetMinutes (run_callback cb c) = targetMinutes c
          \<and> timerRef (run_callback cb c) = timerRef c
          \<and> intervals (run_callback cb c) = intervals c
          \<and> nextId (run_callback cb c) = nextId c"
    then show ?thesis unfolding t c'_def using assms by (intro timer_ok_run_effects) simp_all
  next
    assume "status (run_callback cb c) \<noteq> status c
          \<and> timerRef (run_callback cb c) = None
          \<and> intervals (run_callback cb c) = []
          \<and> nextId (run_callback cb c) = nextId c"
    then show ?thesis unfolding t c'_def by (intro run_effects_changed(1)) simp_all
  qed
qed

lemma handler_timers:
  "timerRef (handler p a c) = timerRef c \<and> intervals (handler p a c) = intervals c
   \<and> nextId (handler p a c) = nextId c"
  by (cases a)
     (simp_all add: openCustom_def handleStartFocus_def handlePause_def handleStop_def
        handleStartBreak_def handleFinishSession_def handleReset_def
        handleContinueAfterBreak_def handleGoToSetupAfterBreak_def Let_def)

lemma timer_ok_step:
  assumes "timer_ok c"
  shows "timer_ok (step p a c)"
proof (cases "a = Tick")
  case True
  then show ?thesis using assms by (simp add: step_def timer_ok_tick)
next
  case False
  then show ?thesis
    using assms handler_timers[of p a c] by (simp add: step_def timer_ok_run_effects)
qed

lemma timer_ok_mount: "timer_ok (mount p)"
  unfolding mount_def by (intro timer_ok_fresh) (simp_all add: initial_def)

lemma reachable_timer_ok:
  assumes "reachable p c"
  shows "timer_ok c"
  using assms by (induction rule: reachable.induct) (simp_all add: timer_ok_mount timer_ok_step)

lemma exec_reachable:
  assumes "reachable p c" and "exec p c as = Some c'"
  shows "reachable p c'"
  using assms
  by (induction as arbitrary: c) (auto split: if_splits intro: reachable_step)


lemma exec_run:
  assumes "exec p c as = Some c'"
  shows "c' = foldl (\<lambda>c a. step p a c) c as"
  using assms by (induction as arbitrary: c) (auto split: if_splits)

lemma reachable_run:
  assumes "exec p (mount p) as \<noteq> None"
  shows "reachable p (run p as)"
proof -
  from assms obtain c' where c': "exec p (mount p) as = Some c'" by auto
  then have "reachable p c'" by (rule exec_reachable[OF reachable_mount])
  moreover have "c' = run p as" using exec_run[OF c'] by (simp add: run_def)
  ultimately show ?thesis by simp
qed

subsection \<open>The ranges of the session fields\<close>

lemmas handler_defs =
  openCustom_def handleStartFocus_def handlePause_def handleStop_def
  handleStartBreak_def handleFinishSession_def handleReset_def
  handleContinueAfterBreak_def handleGoToSetupAfterBreak_def totalDuration_def
  CYCLES_BEFORE_LONG_BREAK_def

lemma session_ok_mount:
  assumes "1 \<le> defaultMinutes p" and "defaultMinutes p \<le> 120"
  shows "session_ok (mount p)"
  using assms by (simp add: session_ok_def mount_def initial_def sync_effect_def)

lemma session_ok_handler:
  assumes "session_ok c" and "enabled a c" and "a \<noteq> Tick"
    and "1 \<le> defaultMinutes p" and "defaultMinutes p \<le> 120"
  shows "session_ok (run_effects c (handler p a c))"
  using assms
  by (cases a)
     (auto simp add: session_ok_def run_effects_timeLeft handler_defs Let_def)

lemma run_effects_unchanged:
  assumes "status c = status old" and "focusMode c = focusMode old"
    and "targetMinutes c = targetMinutes old"
  shows "run_effects old c = c"
  using assms by (simp add: run_effects_def Let_def)

lemma session_ok_tick:
  assumes "session_ok c" and "timer_ok c"
  shows "session_ok (tick c)"
proof (cases "expected_callback c")
  case None
  then show ?thesis using assms by (simp add: tick_timer_ok)
next
  case (Some cb)
  then show ?thesis
    using assms
    by (cases "status c")
       (auto simp add: tick_timer_ok expected_callback_def session_ok_def
          run_effects_timeLeft Let_def split: if_splits)
qed

lemma session_ok_step:
  assumes "session_ok c" and "timer_ok c" and "enabled a c"
    and "1 \<le> defaultMinutes p" and "defaultMinutes p \<le> 120"
  shows "session_ok (step p a c)"
  using assms by (cases "a = Tick") (simp_all add: step_def session_ok_tick session_ok_handler)

lemma reachable_session_ok:
  assumes "reachable p c" and "1 \<le> defaultMinutes p" and "defaultMinutes p \<le> 120"
  shows "session_ok c"
  using assms
  by (induction rule: reachable.induct)
     (simp_all add: session_ok_mount session_ok_step reachable_timer_ok)

section \<open>The break calculator\<close>

lemma round_half_up_tenths:
  "\<lfloor>(of_int a :: rat) / 10 * of_int t + 1 / 2\<rfloor> = (a * t * 2 + 10) div 20"
proof -
  have "(of_int a :: rat) / 10 * of_int t + 1 / 2 = of_int (a * t * 2 + 10) / of_int 20"
    by simp
  then show ?thesis by (simp only: floor_divide_of_int_eq)
qed

text \<open>
  Claim C1. For every target of 1 to 120 minutes, the break action taken in Summary sets
  \<open>breakDuration\<close> (and \<open>breakTimeLeft\<close>) to 60 times the minutes obtained by rounding
  half up: 0.2 times the target when fewer than 4 cycles are counted, 0.6 times the target
  when 4 or more are. The right-hand side is exact rational arithmetic; the left-hand side
  is the binary64 computation of the handler. Nothing in the statement depends on
  \<open>isCustomMode\<close>: presets and slider values are treated alike.
\<close>

theorem break_duration_ratio:
  assumes "status c = Summary" and "1 \<le> targetMinutes c" and "targetMinutes c \<le> 120"
  shows "status (step p StartBreak c) = Break
    \<and> breakDuration (step p StartBreak c) =
        60 * (if 4 \<le> pomodoroCycles c
              then \<lfloor>6 / 10 * rat_of_int (targetMinutes c) + 1 / 2\<rfloor>
              else \<lfloor>2 / 10 * rat_of_int (targetMinutes c) + 1 / 2\<rfloor>)
    \<and> breakTimeLeft (step p StartBreak c) = breakDuration (step p StartBreak c)"
proof -
  have t: "0 \<le> targetMinutes c" "targetMinutes c \<le> 2 ^ 40" using assms(2,3) by simp_all
  have s: "\<lfloor>2 / 10 * rat_of_int (targetMinutes c) + 1 / 2\<rfloor> = (2 * targetMinutes c + 5) div 10"
    using round_half_up_tenths[of 2 "targetMinutes c"] by simp
  have l: "\<lfloor>6 / 10 * rat_of_int (targetMinutes c) + 1 / 2\<rfloor> = (6 * targetMinutes c + 5) div 10"
    using round_half_up_tenths[of 6 "targetMinutes c"] by simp
  show ?thesis
    unfolding s l
    by (simp add: step_def handleStartBreak_def CYCLES_BEFORE_LONG_BREAK_def Let_def
          break_minutes_short[OF t] break_minutes_long[OF t])
qed

text \<open>The state after starting a 25 minute session and stopping it at once.\<close>

lemma run_summary_25:
  "run props_25min [StartFocus, Stop] =
     \<lparr>status = Summary, targetMinutes = 25, timeLeft = 1500, flowTime = 0,
      totalFocusTime = 0, focusMode = Classic, isCustomMode = False,
      breakTimeLeft = 0, breakDuration = 0, previousTargetMinutes = 25,
      previousFocusMode = Classic, pomodoroCycles = 0, timerRef = None,
      intervals = [], nextId = 2, alarmsPlayed = 0, onFinishCalls = []\<rparr>"
  by code_simp

theorem break_duration_ratio_witness:
  "status (run props_25min [StartFocus, Stop]) = Summary
   \<and> targetMinutes (run props_25min [StartFocus, Stop]) = 25
   \<and> pomodoroCycles (run props_25min [StartFocus, Stop]) = 0
   \<and> breakDuration (step props_25min StartBreak (run props_25min [StartFocus, Stop])) = 300"
proof -
  have f: "\<lfloor>(11::rat) / 2\<rfloor> = 5" by (rule floor_unique) simp_all
  show ?thesis
    using break_duration_ratio[of "run props_25min [StartFocus, Stop]" props_25min]
    by (simp add: run_summary_25 f)
qed

section \<open>Pause, continue and finish\<close>

lemma session_of_clearTimerRef [simp]: "session_of (clearTimerRef c) = session_of c"
  by (simp add: session_of_def clearTimerRef_def clearInterval_def split: option.splits)

lemma session_of_setInterval [simp]: "session_of (setInterval cb c) = session_of c"
  by (simp add: session_of_def setInterval_def)

lemma session_of_timer_effect [simp]: "session_of (timer_effect c) = session_of c"
  by (simp add: timer_effect_def)

lemma session_of_run_effects:
  "session_of (run_effects old c) =
     session_of (if targetMinutes c \<noteq> targetMinutes old \<or> status c \<noteq> status old
                 then sync_effect c else c)"
  by (simp add: run_effects_def Let_def timer_cleanup_def)

text \<open>
  Claim C10. In Running, the pause action changes the phase to Paused and no other state
  variable; the resume action that follows changes the phase back to Running and no other
  state variable, so the session is again what it was before the pause. In particular
  \<open>timeLeft\<close> is not set back to the target: the effect that synchronises \<open>timeLeft\<close> with
  \<open>targetMinutes\<close> does run when the phase changes, but its body acts only in Setup or Idle.
\<close>

theorem pause_resume_frame:
  assumes "status c = Running"
  shows "session_of (step p PauseFocus c) = (session_of c)\<lparr>status := Paused\<rparr>
    \<and> session_of (step p StartFocus (step p PauseFocus c)) = session_of c
    \<and> timeLeft (step p PauseFocus c) = timeLeft c
    \<and> timeLeft (step p StartFocus (step p PauseFocus c)) = timeLeft c
    \<and> sync_effect (handleStartFocus (step p PauseFocus c))
        = handleStartFocus (step p PauseFocus c)"
proof -
  have 1: "session_of (step p PauseFocus c) = (session_of c)\<lparr>status := Paused\<rparr>"
    using assms
    by (simp add: step_def session_of_run_effects handlePause_def sync_effect_def)
       (simp add: session_of_def)
  have 2: "session_of (step p StartFocus (step p PauseFocus c))
             = (session_of (step p PauseFocus c))\<lparr>status := Running\<rparr>"
    by (simp add: step_def[of p StartFocus] session_of_run_effects handleStartFocus_def
          sync_effect_def)
       (simp add: session_of_def)
  have 3: "(session_of c)\<lparr>status := Paused\<rparr>\<lparr>status := Running\<rparr> = session_of c"
    using assms by (simp add: session_of_def)
  have 4: "timeLeft (step p PauseFocus c) = timeLeft c"
    by (simp add: step_def run_effects_timeLeft handlePause_def)
  have 5: "timeLeft (step p StartFocus (step p PauseFocus c)) = timeLeft (step p PauseFocus c)"
    by (simp add: step_def[of p StartFocus] run_effects_timeLeft handleStartFocus_def)
  have 6: "sync_effect (handleStartFocus (step p PauseFocus c))
        = handleStartFocus (step p PauseFocus c)"
    by (simp add: sync_effect_def handleStartFocus_def)
  show ?thesis using 1 2 3 4 5 6 by simp
qed

text \<open>A one minute session, two seconds after the start.\<close>

lemma run_running_1:
  "run props_1min [StartFocus, Tick, Tick] =
     \<lparr>status = Running, targetMinutes = 1, timeLeft = 58, flowTime = 0,
      totalFocusTime = 0, focusMode = Classic, isCustomMode = False,
      breakTimeLeft = 0, breakDuration = 0, previousTargetMinutes = 1,
      previousFocusMode = Classic, pomodoroCycles = 0, timerRef = Some 1,
      intervals = [(1, Countdown Classic 1)], nextId = 2, alarmsPlayed = 0,
      onFinishCalls = []\<rparr>"
  by code_simp

theorem pause_resume_frame_witness:
  "status (run props_1min [StartFocus, Tick, Tick]) = Running
   \<and> timeLeft (run props_1min [StartFocus, Tick, Tick]) = 58
   \<and> status (step props_1min PauseFocus (run props_1min [StartFocus, Tick, Tick])) = Paused
   \<and> timeLeft (step props_1min StartFocus
        (step props_1min PauseFocus (run props_1min [StartFocus, Tick, Tick]))) = 58"
proof -
  have s: "status (run props_1min [StartFocus, Tick, Tick]) = Running"
    by (simp add: run_running_1)
  have "status (session_of (step props_1min PauseFocus (run props_1min [StartFocus, Tick, Tick])))
          = Paused"
    using pause_resume_frame[OF s, of props_1min] by simp
  then have "status (step props_1min PauseFocus (run props_1min [StartFocus, Tick, Tick])) = Paused"
    by (simp add: session_of_def)
  then show ?thesis
    using pause_resume_frame[OF s, of props_1min] s by (simp add: run_running_1)
qed

text \<open>
  The saved target and mode are written by the break action and by nothing that the clock
  runs.
\<close>

lemma fire_saved:
  "previousTargetMinutes (fire i c) = previousTargetMinutes c
   \<and> previousFocusMode (fire i c) = previousFocusMode c"
proof (cases "map_of (intervals c) i")
  case None
  then show ?thesis by (simp add: fire_def)
next
  case (Some cb)
  then show ?thesis by (cases cb) (simp_all add: fire_def Let_def)
qed

lemma foldl_fire_saved:
  "previousTargetMinutes (foldl (\<lambda>c' i. fire i c') c is) = previousTargetMinutes c
   \<and> previousFocusMode (foldl (\<lambda>c' i. fire i c') c is) = previousFocusMode c"
  by (induction "is" arbitrary: c) (simp_all add: fire_saved)

lemma ticks_saved:
  "previousTargetMinutes (ticks n c) = previousTargetMinutes c
   \<and> previousFocusMode (ticks n c) = previousFocusMode c"
  by (induction n arbitrary: c) (simp_all add: tick_def foldl_fire_saved)

lemma start_break_snapshot:
  "previousTargetMinutes (step p StartBreak c) = targetMinutes c
   \<and> previousFocusMode (step p StartBreak c) = focusMode c"
  by (simp add: step_def handleStartBreak_def Let_def)

text \<open>
  Claim C6. The continue action taken in BreakEnd moves to Running, sets \<open>targetMinutes\<close>
  and \<open>focusMode\<close> to \<open>previousTargetMinutes\<close> and \<open>previousFocusMode\<close>, sets \<open>timeLeft\<close>
  to that target in seconds and \<open>flowTime\<close> and \<open>totalFocusTime\<close> to 0, and sets the cycle
  counter to 0 exactly when it is 4 or more, leaving it unchanged otherwise. The saved
  values are the snapshot of break entry: when the BreakEnd state \<open>c\<close> is reached by the break
  action taken in a Summary state \<open>c0\<close> followed by \<open>n\<close> ticks of the break clock, they are
  the target and mode of \<open>c0\<close>, so the continue action resumes with the target and mode
  of \<open>c0\<close> and a full countdown of that target.
\<close>

theorem continue_after_break:
  assumes "status c = BreakEnd"
  shows "status (step p ContinueAfterBreak c) = Running
    \<and> targetMinutes (step p ContinueAfterBreak c) = previousTargetMinutes c
    \<and> focusMode (step p ContinueAfterBreak c) = previousFocusMode c
    \<and> timeLeft (step p ContinueAfterBreak c) = previousTargetMinutes c * 60
    \<and> flowTime (step p ContinueAfterBreak c) = 0
    \<and> totalFocusTime (step p ContinueAfterBreak c) = 0
    \<and> pomodoroCycles (step p ContinueAfterBreak c)
        = (if 4 \<le> pomodoroCycles c then 0 else pomodoroCycles c)
    \<and> (status c0 = Summary \<and> c = ticks n (step p StartBreak c0) \<longrightarrow>
          previousTargetMinutes c = targetMinutes c0
          \<and> previousFocusMode c = focusMode c0
          \<and> targetMinutes (step p ContinueAfterBreak c) = targetMinutes c0
          \<and> focusMode (step p ContinueAfterBreak c) = focusMode c0
          \<and> timeLeft (step p ContinueAfterBreak c) = targetMinutes c0 * 60)"
proof -
  have a: "status (step p ContinueAfterBreak c) = Running
    \<and> targetMinutes (step p ContinueAfterBreak c) = previousTargetMinutes c
    \<and> focusMode (step p ContinueAfterBreak c) = previousFocusMode c
    \<and> timeLeft (step p ContinueAfterBreak c) = previousTargetMinutes c * 60
    \<and> flowTime (step p ContinueAfterBreak c) = 0
    \<and> totalFocusTime (step p ContinueAfterBreak c) = 0
    \<and> pomodoroCycles (step p ContinueAfterBreak c)
        = (if 4 \<le> pomodoroCycles c then 0 else pomodoroCycles c)"
    by (simp add: step_def run_effects_timeLeft handleContinueAfterBreak_def
          CYCLES_BEFORE_LONG_BREAK_def Let_def)
  have b: "previousTargetMinutes c = targetMinutes c0 \<and> previousFocusMode c = focusMode c0"
    if "c = ticks n (step p StartBreak c0)"
    using ticks_saved[of n "step p StartBreak c0"] start_break_snapshot[of p c0] that by simp
  show ?thesis using a b by auto
qed

text \<open>
  A session of 3 minutes in Prisma mode, set up from the default of 25 minutes in Classic
  mode, stopped at once, and the state at the end of its one minute break.
\<close>

lemma run_summary_custom_3:
  "run props_25min [OpenCustom, SetSlider 3, SetFocusMode Prisma, StartFocus, Stop] =
     \<lparr>status = Summary, targetMinutes = 3, timeLeft = 180, flowTime = 0,
      totalFocusTime = 0, focusMode = Prisma, isCustomMode = True,
      breakTimeLeft = 0, breakDuration = 0, previousTargetMinutes = 25,
      previousFocusMode = Classic, pomodoroCycles = 0, timerRef = None,
      intervals = [], nextId = 2, alarmsPlayed = 0, onFinishCalls = []\<rparr>"
  by code_simp

lemma break_end_custom_3:
  "ticks 60 (step props_25min StartBreak
      (run props_25min [OpenCustom, SetSlider 3, SetFocusMode Prisma, StartFocus, Stop])) =
     \<lparr>status = BreakEnd, targetMinutes = 3, timeLeft = 180, flowTime = 0,
      totalFocusTime = 0, focusMode = Prisma, isCustomMode = True,
      breakTimeLeft = 0, breakDuration = 60, previousTargetMinutes = 3,
      previousFocusMode = Prisma, pomodoroCycles = 0, timerRef = None,
      intervals = [], nextId = 3, alarmsPlayed = 0, onFinishCalls = []\<rparr>"
  by code_simp

theorem continue_after_break_witness:
  "status (run props_25min [OpenCustom, SetSlider 3, SetFocusMode Prisma, StartFocus, Stop]) = Summary
   \<and> targetMinutes (run props_25min [OpenCustom, SetSlider 3, SetFocusMode Prisma, StartFocus, Stop]) = 3
   \<and> focusMode (run props_25min [OpenCustom, SetSlider 3, SetFocusMode Prisma, StartFocus, Stop]) = Prisma
   \<and> previousTargetMinutes (run props_25min [OpenCustom, SetSlider 3, SetFocusMode Prisma, StartFocus, Stop]) = 25
   \<and> previousFocusMode (run props_25min [OpenCustom, SetSlider 3, SetFocusMode Prisma, StartFocus, Stop]) = Classic
   \<and> status (ticks 60 (step props_25min StartBreak
        (run props_25min [OpenCustom, SetSlider 3, SetFocusMode Prisma, StartFocus, Stop]))) = BreakEnd
   \<and> status (step props_25min ContinueAfterBreak (ticks 60 (step props_25min StartBreak
        (run props_25min [OpenCustom, SetSlider 3, SetFocusMode Prisma, StartFocus, Stop])))) = Running
   \<and> targetMinutes (step props_25min ContinueAfterBreak (ticks 60 (step props_25min StartBreak
        (run props_25min [OpenCustom, SetSlider 3, SetFocusMode Prisma, StartFocus, Stop])))) = 3
   \<and> focusMode (step props_25min ContinueAfterBreak (ticks 60 (step props_25min StartBreak
        (run props_25min [OpenCustom, SetSlider 3, SetFocusMode Prisma, StartFocus, Stop])))) = Prisma
   \<and> timeLeft (step props_25min ContinueAfterBreak (ticks 60 (step props_25min StartBreak
        (run props_25min [OpenCustom, SetSlider 3, SetFocusMode Prisma, StartFocus, Stop])))) = 180"
proof -
  define c0 where "c0 = run props_25min [OpenCustom, SetSlider 3, SetFocusMode Prisma, StartFocus, Stop]"
  define c where "c = ticks 60 (step props_25min StartBreak c0)"
  have s0: "status c0 = Summary" "targetMinutes c0 = 3" "focusMode c0 = Prisma"
    "previousTargetMinutes c0 = 25" "previousFocusMode c0 = Classic"
    unfolding c0_def by (simp_all only: run_summary_custom_3) simp_all
  have s: "status c = BreakEnd"
    unfolding c_def c0_def by (simp only: break_end_custom_3) simp
  have l: "status c0 = Summary \<and> c = ticks 60 (step props_25min StartBreak c0)"
    using s0(1) by (simp add: c_def)
  from continue_after_break[OF s, of props_25min c0 60] l
  have "status (step props_25min ContinueAfterBreak c) = Running
      \<and> targetMinutes (step props_25min ContinueAfterBreak c) = targetMinutes c0
      \<and> focusMode (step props_25min ContinueAfterBreak c) = focusMode c0
      \<and> timeLeft (step props_25min ContinueAfterBreak c) = targetMinutes c0 * 60"
    by blast
  then show ?thesis using s0 s unfolding c_def c0_def by simp
qed

text \<open>
  Claim C7, amended. The finish action taken in Summary calls \<open>onFinish\<close>, when it is
  supplied, exactly once, with the ceiling of \<open>totalFocusTime / 60\<close>; the phase returns to
  Setup; \<open>targetMinutes\<close>, \<open>timeLeft\<close>, \<open>flowTime\<close>, \<open>totalFocusTime\<close> and the cycle
  counter are set to their initial values. The focus mode, \<open>isCustomMode\<close>, the break
  fields and the saved target and mode keep their current values. The continue action
  never calls \<open>onFinish\<close>.
\<close>

theorem finish_session_effects:
  assumes "status c = Summary" and "0 \<le> totalFocusTime c" and "totalFocusTime c < 2 ^ 53"
  shows "onFinishCalls (step p FinishSession c)
        = (if onFinish p then onFinishCalls c @ [\<lceil>rat_of_int (totalFocusTime c) / 60\<rceil>]
           else onFinishCalls c)
    \<and> status (step p FinishSession c) = Setup
    \<and> targetMinutes (step p FinishSession c) = defaultMinutes p
    \<and> timeLeft (step p FinishSession c) = defaultMinutes p * 60
    \<and> flowTime (step p FinishSession c) = 0
    \<and> totalFocusTime (step p FinishSession c) = 0
    \<and> pomodoroCycles (step p FinishSession c) = 0
    \<and> focusMode (step p FinishSession c) = focusMode c
    \<and> isCustomMode (step p FinishSession c) = isCustomMode c
    \<and> breakDuration (step p FinishSession c) = breakDuration c
    \<and> breakTimeLeft (step p FinishSession c) = breakTimeLeft c
    \<and> previousTargetMinutes (step p FinishSession c) = previousTargetMinutes c
    \<and> previousFocusMode (step p FinishSession c) = previousFocusMode c
    \<and> onFinishCalls (step p ContinueAfterBreak c') = onFinishCalls c'"
  using assms
  by (simp add: step_def run_effects_timeLeft handleFinishSession_def handleReset_def
        handleContinueAfterBreak_def Let_def ceil_minutes)

text \<open>A one minute Prisma session stopped after one second of overtime.\<close>

lemma run_prisma_summary_1:
  "run props_1min (SetFocusMode Prisma # StartFocus # replicate 61 Tick @ [Stop]) =
     \<lparr>status = Summary, targetMinutes = 1, timeLeft = 0, flowTime = 1,
      totalFocusTime = 61, focusMode = Prisma, isCustomMode = False,
      breakTimeLeft = 0, breakDuration = 0, previousTargetMinutes = 1,
      previousFocusMode = Classic, pomodoroCycles = 1, timerRef = None,
      intervals = [], nextId = 3, alarmsPlayed = 0, onFinishCalls = []\<rparr>"
  by code_simp

theorem finish_session_effects_witness:
  "status (run props_1min (SetFocusMode Prisma # StartFocus # replicate 61 Tick @ [Stop])) = Summary
   \<and> totalFocusTime (run props_1min (SetFocusMode Prisma # StartFocus # replicate 61 Tick @ [Stop])) = 61
   \<and> onFinishCalls (step props_1min FinishSession
        (run props_1min (SetFocusMode Prisma # StartFocus # replicate 61 Tick @ [Stop]))) = [2]
   \<and> status (step props_1min FinishSession
        (run props_1min (SetFocusMode Prisma # StartFocus # replicate 61 Tick @ [Stop]))) = Setup"
proof -
  have c: "\<lceil>(61::rat) / 60\<rceil> = 2" by (rule ceiling_unique) simp_all
  have h: "status (run props_1min (SetFocusMode Prisma # StartFocus # replicate 61 Tick @ [Stop])) = Summary"
    "0 \<le> totalFocusTime (run props_1min (SetFocusMode Prisma # StartFocus # replicate 61 Tick @ [Stop]))"
    "totalFocusTime (run props_1min (SetFocusMode Prisma # StartFocus # replicate 61 Tick @ [Stop])) < 2 ^ 53"
    by (simp_all only: run_prisma_summary_1) simp_all
  show ?thesis
    using finish_session_effects[OF h, of props_1min] h(1)
    by (simp only: run_prisma_summary_1) (simp add: c props_1min_def)
qed

text \<open>
  Claim C7 as stated fails: after a Prisma session the finish action leaves the mode at
  Prisma, while its initial value is Classic.
\<close>

theorem finish_keeps_mode_counterexample:
  "status (run props_1min (SetFocusMode Prisma # StartFocus # replicate 61 Tick @ [Stop])) = Summary
   \<and> focusMode (step props_1min FinishSession
        (run props_1min (SetFocusMode Prisma # StartFocus # replicate 61 Tick @ [Stop]))) = Prisma
   \<and> focusMode (mount props_1min) = Classic"
  by code_simp

subsection \<open>The cycle counter\<close>

lemma fire_cycles: "pomodoroCycles c \<le> pomodoroCycles (fire i c)"
proof (cases "map_of (intervals c) i")
  case None
  then show ?thesis by (simp add: fire_def)
next
  case (Some cb)
  then show ?thesis by (cases cb) (simp_all add: fire_def Let_def)
qed

lemma foldl_fire_cycles:
  "pomodoroCycles c \<le> pomodoroCycles (foldl (\<lambda>c' i. fire i c') c is)"
proof (induction "is" arbitrary: c)
  case Nil
  then show ?case by simp
next
  case (Cons i "is")
  have "pomodoroCycles c \<le> pomodoroCycles (fire i c)" by (rule fire_cycles)
  also have "\<dots> \<le> pomodoroCycles (foldl (\<lambda>c' i. fire i c') (fire i c) is)" by (rule Cons.IH)
  finally show ?case by simp
qed

lemma tick_cycles: "pomodoroCycles c \<le> pomodoroCycles (tick c)"
  unfolding tick_def by (rule foldl_fire_cycles)

text \<open>
  Claim C2, amended. The cycle counter is 0 at mount. Every action that runs
  \<open>handleReset\<close> (finish, skip-break, new-session) sets it to 0; the continue action sets
  it to 0 when it is 4 or more and leaves it unchanged otherwise; no other action, and no
  tick, decreases it.
\<close>

theorem cycle_count_changes:
  "(a = FinishSession \<or> a = SkipBreak \<or> a = GoToSetupAfterBreak
      \<longrightarrow> pomodoroCycles (step p a c) = 0)
   \<and> (a = ContinueAfterBreak
      \<longrightarrow> pomodoroCycles (step p a c) = (if 4 \<le> pomodoroCycles c then 0 else pomodoroCycles c))
   \<and> (a \<noteq> FinishSession \<and> a \<noteq> SkipBreak \<and> a \<noteq> GoToSetupAfterBreak \<and> a \<noteq> ContinueAfterBreak
      \<longrightarrow> pomodoroCycles c \<le> pomodoroCycles (step p a c))
   \<and> pomodoroCycles (mount p) = 0"
proof -
  have "pomodoroCycles (mount p) = 0" by (simp add: mount_def)
  moreover have "pomodoroCycles c \<le> pomodoroCycles (step p Tick c)"
    by (simp add: step_def tick_cycles)
  ultimately show ?thesis
    by (cases a) (simp_all add: step_def handler_defs Let_def)
qed

text \<open>A one minute Classic session counted down to the end.\<close>

lemma run_completed_1:
  "run props_1min (StartFocus # replicate 60 Tick) =
     \<lparr>status = Summary, targetMinutes = 1, timeLeft = 0, flowTime = 0,
      totalFocusTime = 60, focusMode = Classic, isCustomMode = False,
      breakTimeLeft = 0, breakDuration = 0, previousTargetMinutes = 1,
      previousFocusMode = Classic, pomodoroCycles = 1, timerRef = None,
      intervals = [], nextId = 2, alarmsPlayed = 1, onFinishCalls = []\<rparr>"
  by code_simp

theorem cycle_count_changes_witness:
  "pomodoroCycles (run props_1min (StartFocus # replicate 60 Tick)) = 1
   \<and> pomodoroCycles (step props_1min FinishSession
        (run props_1min (StartFocus # replicate 60 Tick))) = 0
   \<and> pomodoroCycles (step props_1min StartBreak
        (run props_1min (StartFocus # replicate 60 Tick))) \<ge> 1"
  using cycle_count_changes[of FinishSession props_1min "run props_1min (StartFocus # replicate 60 Tick)"]
    cycle_count_changes[of StartBreak props_1min "run props_1min (StartFocus # replicate 60 Tick)"]
  by (simp only: run_completed_1) simp

text \<open>
  Claim C2 as stated fails: the finish action after one completed session takes the
  counter from 1 to 0.
\<close>

theorem finish_resets_cycles_counterexample:
  "status (run props_1min (StartFocus # replicate 60 Tick)) = Summary
   \<and> enabled FinishSession (run props_1min (StartFocus # replicate 60 Tick))
   \<and> pomodoroCycles (step props_1min FinishSession
        (run props_1min (StartFocus # replicate 60 Tick)))
      < pomodoroCycles (run props_1min (StartFocus # replicate 60 Tick))"
  by code_simp

section \<open>Stopping and counting down\<close>

text \<open>
  Claim C3. In every state reached from a configuration of 1 to 120 minutes, the stop
  action taken in Running, Paused or Flow moves to Summary with
  \<open>totalFocusTime = targetMinutes * 60 - timeLeft + flowTime\<close>, and adds 1 to the cycle
  counter exactly when \<open>totalFocusTime\<close> is at least 0.8 times the target in seconds
  (adding nothing otherwise). In Flow \<open>timeLeft\<close> is 0 and the counter is always
  incremented. The threshold on the right is exact; the handler's is the binary64 product.
\<close>

theorem stop_counts_cycle:
  assumes "reachable p c" and "1 \<le> defaultMinutes p" and "defaultMinutes p \<le> 120"
    and "status c = Running \<or> status c = Paused \<or> status c = Flow"
  shows "status (step p Stop c) = Summary
    \<and> totalFocusTime (step p Stop c) = targetMinutes c * 60 - timeLeft c + flowTime c
    \<and> pomodoroCycles (step p Stop c)
        = pomodoroCycles c
          + (if 8 / 10 * rat_of_int (targetMinutes c * 60)
                  \<le> rat_of_int (totalFocusTime (step p Stop c))
             then 1 else 0)
    \<and> (status c = Flow \<longrightarrow>
          timeLeft c = 0 \<and> pomodoroCycles (step p Stop c) = pomodoroCycles c + 1)"
proof -
  have ok: "session_ok c" using assms(1-3) by (rule reachable_session_ok)
  then have t: "0 \<le> targetMinutes c" "targetMinutes c < 2 ^ 47" by (simp_all add: session_ok_def)
  have th: "num_mul (rat_of_int (targetMinutes c * 60)) (to_double (8 / 10))
              = 8 / 10 * rat_of_int (targetMinutes c * 60)"
    using threshold_exact[OF t] by simp
  have 1: "status (step p Stop c) = Summary"
    by (simp add: step_def handleStop_def Let_def)
  have 2: "totalFocusTime (step p Stop c) = targetMinutes c * 60 - timeLeft c + flowTime c"
    by (simp add: step_def handleStop_def Let_def totalDuration_def)
  have 3: "pomodoroCycles (step p Stop c)
        = pomodoroCycles c
          + (if 8 / 10 * rat_of_int (targetMinutes c * 60)
                  \<le> rat_of_int (targetMinutes c * 60 - timeLeft c + flowTime c)
             then 1 else 0)"
    unfolding th[symmetric] by (simp add: step_def handleStop_def Let_def totalDuration_def)
  have 4: "status c = Flow \<longrightarrow>
          timeLeft c = 0 \<and> pomodoroCycles (step p Stop c) = pomodoroCycles c + 1"
  proof
    assume f: "status c = Flow"
    with ok have z: "timeLeft c = 0" and fl: "0 \<le> flowTime c" by (simp_all add: session_ok_def)
    have "8 / 10 * rat_of_int (targetMinutes c * 60) \<le> rat_of_int (targetMinutes c * 60)"
      using t(1) by simp
    also have "\<dots> \<le> rat_of_int (targetMinutes c * 60 - timeLeft c + flowTime c)"
      using z fl by simp
    finally show "timeLeft c = 0 \<and> pomodoroCycles (step p Stop c) = pomodoroCycles c + 1"
      using z by (simp add: 3)
  qed
  have 5: "pomodoroCycles (step p Stop c)
        = pomodoroCycles c
          + (if 8 / 10 * rat_of_int (targetMinutes c * 60)
                  \<le> rat_of_int (totalFocusTime (step p Stop c))
             then 1 else 0)"
    unfolding 2 by (rule 3)
  show ?thesis using 1 2 5 4 by blast
qed

text \<open>A one minute Prisma session, one second into overtime.\<close>

lemma run_prisma_flow_1:
  "run props_1min (SetFocusMode Prisma # StartFocus # replicate 61 Tick) =
     \<lparr>status = Flow, targetMinutes = 1, timeLeft = 0, flowTime = 1,
      totalFocusTime = 0, focusMode = Prisma, isCustomMode = False,
      breakTimeLeft = 0, breakDuration = 0, previousTargetMinutes = 1,
      previousFocusMode = Classic, pomodoroCycles = 0, timerRef = Some 2,
      intervals = [(2, Overtime)], nextId = 3, alarmsPlayed = 0, onFinishCalls = []\<rparr>"
  by code_simp

lemma exec_prisma_flow_1:
  "exec props_1min (mount props_1min) (SetFocusMode Prisma # StartFocus # replicate 61 Tick) \<noteq> None"
  by code_simp

theorem stop_counts_cycle_witness:
  "reachable props_1min (run props_1min (SetFocusMode Prisma # StartFocus # replicate 61 Tick))
   \<and> status (run props_1min (SetFocusMode Prisma # StartFocus # replicate 61 Tick)) = Flow
   \<and> totalFocusTime (step props_1min Stop
        (run props_1min (SetFocusMode Prisma # StartFocus # replicate 61 Tick))) = 61
   \<and> pomodoroCycles (step props_1min Stop
        (run props_1min (SetFocusMode Prisma # StartFocus # replicate 61 Tick))) = 1"
proof -
  have r: "reachable props_1min (run props_1min (SetFocusMode Prisma # StartFocus # replicate 61 Tick))"
    using exec_prisma_flow_1 by (rule reachable_run)
  have d: "1 \<le> defaultMinutes props_1min" "defaultMinutes props_1min \<le> 120"
    by (simp_all add: props_1min_def)
  have s: "status (run props_1min (SetFocusMode Prisma # StartFocus # replicate 61 Tick)) = Flow"
    by (simp only: run_prisma_flow_1) simp
  then have s': "status (run props_1min (SetFocusMode Prisma # StartFocus # replicate 61 Tick)) = Running
      \<or> status (run props_1min (SetFocusMode Prisma # StartFocus # replicate 61 Tick)) = Paused
      \<or> status (run props_1min (SetFocusMode Prisma # StartFocus # replicate 61 Tick)) = Flow"
    by simp
  show ?thesis
    using stop_counts_cycle[OF r d s'] r s by (simp only: run_prisma_flow_1) simp
qed

text \<open>
  Claim C4. When a tick in Running finds \<open>timeLeft\<close> at 1 or below, \<open>timeLeft\<close> becomes 0;
  in Prisma mode the phase becomes Flow (not Summary); in Classic mode the phase becomes
  Summary (not Flow), the alarm is played once, \<open>totalFocusTime\<close> is the target in seconds
  and the cycle counter is incremented by 1.
\<close>

theorem countdown_end_by_mode:
  assumes "reachable p c" and "status c = Running" and "timeLeft c \<le> 1"
  shows "timeLeft (step p Tick c) = 0
    \<and> (focusMode c = Prisma \<longrightarrow> status (step p Tick c) = Flow)
    \<and> (focusMode c = Classic \<longrightarrow>
          status (step p Tick c) = Summary
          \<and> alarmsPlayed (step p Tick c) = alarmsPlayed c + 1
          \<and> totalFocusTime (step p Tick c) = targetMinutes c * 60
          \<and> pomodoroCycles (step p Tick c) = pomodoroCycles c + 1)"
proof -
  have ok: "timer_ok c" using assms(1) by (rule reachable_timer_ok)
  have e: "expected_callback c = Some (Countdown (focusMode c) (targetMinutes c))"
    using assms(2) by (simp add: expected_callback_def)
  have t: "step p Tick c = run_effects c (run_callback (Countdown (focusMode c) (targetMinutes c)) c)"
    by (simp add: step_def tick_timer_ok[OF ok] e)
  show ?thesis
    unfolding t using assms(3)
    by (cases "focusMode c") (simp_all add: run_effects_timeLeft Let_def)
qed

text \<open>A one minute Classic session with one second left.\<close>

lemma run_last_second_1:
  "run props_1min (StartFocus # replicate 59 Tick) =
     \<lparr>status = Running, targetMinutes = 1, timeLeft = 1, flowTime = 0,
      totalFocusTime = 0, focusMode = Classic, isCustomMode = False,
      breakTimeLeft = 0, breakDuration = 0, previousTargetMinutes = 1,
      previousFocusMode = Classic, pomodoroCycles = 0, timerRef = Some 1,
      intervals = [(1, Countdown Classic 1)], nextId = 2, alarmsPlayed = 0,
      onFinishCalls = []\<rparr>"
  by code_simp

lemma exec_last_second_1:
  "exec props_1min (mount props_1min) (StartFocus # replicate 59 Tick) \<noteq> None"
  by code_simp

theorem countdown_end_by_mode_witness:
  "reachable props_1min (run props_1min (StartFocus # replicate 59 Tick))
   \<and> status (run props_1min (StartFocus # replicate 59 Tick)) = Running
   \<and> timeLeft (run props_1min (StartFocus # replicate 59 Tick)) = 1
   \<and> focusMode (run props_1min (StartFocus # replicate 59 Tick)) = Classic
   \<and> status (step props_1min Tick (run props_1min (StartFocus # replicate 59 Tick))) = Summary
   \<and> alarmsPlayed (step props_1min Tick (run props_1min (StartFocus # replicate 59 Tick))) = 1
   \<and> totalFocusTime (step props_1min Tick (run props_1min (StartFocus # replicate 59 Tick))) = 60
   \<and> pomodoroCycles (step props_1min Tick (run props_1min (StartFocus # replicate 59 Tick))) = 1"
proof -
  have r: "reachable props_1min (run props_1min (StartFocus # replicate 59 Tick))"
    using exec_last_second_1 by (rule reachable_run)
  have s: "status (run props_1min (StartFocus # replicate 59 Tick)) = Running"
    and l: "timeLeft (run props_1min (StartFocus # replicate 59 Tick)) \<le> 1"
    by (simp_all only: run_last_second_1) simp_all
  show ?thesis
    using countdown_end_by_mode[OF r s l] r
    by (simp only: run_last_second_1) simp
qed

text \<open>
  Claim C8, amended. The component does not clamp or reject \<open>defaultMinutes\<close>. When
  \<open>defaultMinutes\<close> lies in 1 to 120, the target in seconds lies in 60 to 7200 in every
  reachable state.
\<close>

theorem target_in_range:
  assumes "reachable p c" and "1 \<le> defaultMinutes p" and "defaultMinutes p \<le> 120"
  shows "60 \<le> targetMinutes c * 60 \<and> targetMinutes c * 60 \<le> 7200"
  using reachable_session_ok[OF assms] by (simp add: session_ok_def)

lemma exec_custom_25:
  "exec props_25min (mount props_25min) [OpenCustom, SetSlider 120, StartFocus] \<noteq> None"
  by code_simp

lemma run_custom_25:
  "run props_25min [OpenCustom, SetSlider 120, StartFocus] =
     \<lparr>status = Running, targetMinutes = 120, timeLeft = 7200, flowTime = 0,
      totalFocusTime = 0, focusMode = Classic, isCustomMode = True,
      breakTimeLeft = 0, breakDuration = 0, previousTargetMinutes = 25,
      previousFocusMode = Classic, pomodoroCycles = 0, timerRef = Some 1,
      intervals = [(1, Countdown Classic 120)], nextId = 2, alarmsPlayed = 0,
      onFinishCalls = []\<rparr>"
  by code_simp

theorem target_in_range_witness:
  "reachable props_25min (run props_25min [OpenCustom, SetSlider 120, StartFocus])
   \<and> 1 \<le> defaultMinutes props_25min \<and> defaultMinutes props_25min \<le> 120
   \<and> targetMinutes (run props_25min [OpenCustom, SetSlider 120, StartFocus]) * 60 = 7200"
proof -
  have r: "reachable props_25min (run props_25min [OpenCustom, SetSlider 120, StartFocus])"
    using exec_custom_25 by (rule reachable_run)
  have d: "1 \<le> defaultMinutes props_25min" "defaultMinutes props_25min \<le> 120"
    by (simp_all add: props_25min_def)
  show ?thesis
    using target_in_range[OF r d] r d by (simp only: run_custom_25) simp
qed

text \<open>
  Claim C8 as stated fails: with \<open>defaultMinutes = 500\<close> the component mounts with a target
  of 30000 seconds.
\<close>

theorem default_not_clamped_counterexample:
  "reachable props_500min (mount props_500min)
   \<and> targetMinutes (mount props_500min) * 60 = 30000
   \<and> \<not> targetMinutes (mount props_500min) * 60 \<le> 7200"
proof -
  have "targetMinutes (mount props_500min) * 60 = 30000" by code_simp
  then show ?thesis by (simp add: reachable_mount)
qed

section \<open>The timer discipline\<close>

lemma step_status_changed:
  assumes "timer_ok c" and "status (step p a c) \<noteq> status c"
  shows "\<forall>i \<in> set (map fst (intervals (step p a c))). nextId c \<le> i"
proof (cases "a = Tick")
  case False
  have m: "map fst (intervals (handler p a c))
             = (case timerRef (handler p a c) of None \<Rightarrow> [] | Some i \<Rightarrow> [i])"
    using assms(1) handler_timers[of p a c] by (simp add: timer_ok_def)
  have s: "status (handler p a c) \<noteq> status c \<or> focusMode (handler p a c) \<noteq> focusMode c
             \<or> targetMinutes (handler p a c) \<noteq> targetMinutes c"
    using assms(2) False by (simp add: step_def)
  show ?thesis
    using run_effects_changed(2)[OF s m] handler_timers[of p a c] False by (simp add: step_def)
next
  case True
  show ?thesis
  proof (cases "expected_callback c")
    case None
    then show ?thesis using assms True by (simp add: step_def tick_timer_ok)
  next
    case (Some cb)
    have t: "step p a c = run_effects c (run_callback cb c)"
      using assms(1) Some True by (simp add: step_def tick_timer_ok)
    have ne: "status (run_callback cb c) \<noteq> status c" using assms(2) by (simp add: t)
    with run_callback_timers[OF assms(1) Some]
    have cl: "timerRef (run_callback cb c) = None" "intervals (run_callback cb c) = []"
      "nextId (run_callback cb c) = nextId c" by simp_all
    have s: "status (run_callback cb c) \<noteq> status c \<or> focusMode (run_callback cb c) \<noteq> focusMode c
             \<or> targetMinutes (run_callback cb c) \<noteq> targetMinutes c" using ne by simp
    have m: "map fst (intervals (run_callback cb c))
             = (case timerRef (run_callback cb c) of None \<Rightarrow> [] | Some i \<Rightarrow> [i])"
      by (simp add: cl)
    show ?thesis using run_effects_changed(2)[OF s m] by (simp add: t cl)
  qed
qed

text \<open>
  Claim C9. A state is what holds once a handler or an interval callback and the effects
  it triggers have run. In every reachable state the live intervals are: the countdown
  alone in Running, the overtime clock alone in Flow, the break clock alone in Break, and
  none in any other phase; so at most one is live, and never the countdown together with
  the overtime clock. Whenever a step changes the phase, no interval that was live before
  the step is live after it: the tick of the phase that was left is cancelled.
\<close>

theorem one_tick_source:
  assumes "reachable p c"
  shows "map snd (intervals c)
        = (case status c of
             Running \<Rightarrow> [Countdown (focusMode c) (targetMinutes c)]
           | Flow \<Rightarrow> [Overtime]
           | Break \<Rightarrow> [BreakTick]
           | _ \<Rightarrow> [])
    \<and> length (intervals c) \<le> 1
    \<and> (status (step p a c) \<noteq> status c
        \<longrightarrow> set (map fst (intervals c)) \<inter> set (map fst (intervals (step p a c))) = {})"
proof -
  have ok: "timer_ok c" using assms by (rule reachable_timer_ok)
  have 1: "map snd (intervals c)
        = (case status c of
             Running \<Rightarrow> [Countdown (focusMode c) (targetMinutes c)]
           | Flow \<Rightarrow> [Overtime]
           | Break \<Rightarrow> [BreakTick]
           | _ \<Rightarrow> [])"
    using ok by (cases "status c") (simp_all add: timer_ok_def expected_callback_def)
  have "length (map snd (intervals c)) \<le> 1" unfolding 1 by (cases "status c") simp_all
  then have 2: "length (intervals c) \<le> 1" by simp
  have 3: "status (step p a c) \<noteq> status c
        \<longrightarrow> set (map fst (intervals c)) \<inter> set (map fst (intervals (step p a c))) = {}"
  proof
    assume "status (step p a c) \<noteq> status c"
    then have new: "\<forall>i \<in> set (map fst (intervals (step p a c))). nextId c \<le> i"
      by (rule step_status_changed[OF ok])
    have old: "\<forall>i \<in> set (map fst (intervals c)). i < nextId c" using ok unfolding timer_ok_def by blast
    show "set (map fst (intervals c)) \<inter> set (map fst (intervals (step p a c))) = {}"
      using new old by fastforce
  qed
  show ?thesis using 1 2 3 by blast
qed

lemma exec_running_1:
  "exec props_1min (mount props_1min) [StartFocus, Tick, Tick] \<noteq> None"
  by code_simp

text \<open>The same session after the pause action.\<close>

lemma run_paused_1:
  "step props_1min PauseFocus (run props_1min [StartFocus, Tick, Tick]) =
     \<lparr>status = Paused, targetMinutes = 1, timeLeft = 58, flowTime = 0,
      totalFocusTime = 0, focusMode = Classic, isCustomMode = False,
      breakTimeLeft = 0, breakDuration = 0, previousTargetMinutes = 1,
      previousFocusMode = Classic, pomodoroCycles = 0, timerRef = None,
      intervals = [], nextId = 2, alarmsPlayed = 0,
      onFinishCalls = []\<rparr>"
  by code_simp

theorem one_tick_source_witness:
  "reachable props_1min (run props_1min [StartFocus, Tick, Tick])
   \<and> status (run props_1min [StartFocus, Tick, Tick]) = Running
   \<and> intervals (run props_1min [StartFocus, Tick, Tick]) = [(1, Countdown Classic 1)]
   \<and> status (step props_1min PauseFocus (run props_1min [StartFocus, Tick, Tick])) = Paused
   \<and> set (map fst (intervals (run props_1min [StartFocus, Tick, Tick])))
       \<inter> set (map fst (intervals
             (step props_1min PauseFocus (run props_1min [StartFocus, Tick, Tick])))) = {}"
proof -
  have r: "reachable props_1min (run props_1min [StartFocus, Tick, Tick])"
    using exec_running_1 by (rule reachable_run)
  have s: "status (step props_1min PauseFocus (run props_1min [StartFocus, Tick, Tick]))
            \<noteq> status (run props_1min [StartFocus, Tick, Tick])"
    by (simp only: run_paused_1) (simp add: run_running_1)
  have d: "set (map fst (intervals (run props_1min [StartFocus, Tick, Tick])))
       \<inter> set (map fst (intervals
             (step props_1min PauseFocus (run props_1min [StartFocus, Tick, Tick])))) = {}"
    using one_tick_source[OF r, of PauseFocus] s by blast
  show ?thesis
    using r d by (simp only: run_paused_1) (simp add: run_running_1)
qed

section \<open>The countdown\<close>

lemma ticks_add: "ticks (m + n) c = ticks n (ticks m c)"
  by (induction m arbitrary: c) simp_all

lemma timer_ok_ticks:
  assumes "timer_ok c"
  shows "timer_ok (ticks k c)"
  using assms by (induction k arbitrary: c) (simp_all add: timer_ok_tick)

lemma tick_countdown:
  assumes "timer_ok c" and "status c = Running"
  shows "tick c = run_effects c (run_callback (Countdown (focusMode c) (targetMinutes c)) c)"
  using assms by (simp add: tick_timer_ok expected_callback_def)

lemma tick_countdown_running:
  assumes "timer_ok c" and "status c = Running" and "1 < timeLeft c"
  shows "tick c = c\<lparr>timeLeft := timeLeft c - 1\<rparr>"
  using assms by (simp add: tick_countdown run_effects_unchanged)

lemma tick_countdown_end:
  assumes "timer_ok c" and "status c = Running" and "timeLeft c \<le> 1"
  shows "timeLeft (tick c) = 0 \<and> (status (tick c) = Summary \<or> status (tick c) = Flow)"
  using assms by (simp add: tick_countdown run_effects_timeLeft Let_def)

lemma countdown_ticks:
  assumes "timer_ok c" and "status c = Running" and "int k < timeLeft c"
  shows "ticks k c = c\<lparr>timeLeft := timeLeft c - int k\<rparr>"
  using assms
proof (induction k arbitrary: c)
  case 0
  then show ?case by simp
next
  case (Suc k)
  have t: "tick c = c\<lparr>timeLeft := timeLeft c - 1\<rparr>"
    using Suc.prems by (intro tick_countdown_running) simp_all
  have "timer_ok (tick c)" using Suc.prems(1) by (rule timer_ok_tick)
  moreover have "status (tick c) = Running" using Suc.prems(2) by (simp add: t)
  moreover have "int k < timeLeft (tick c)" using Suc.prems(3) by (simp add: t)
  ultimately have "ticks k (tick c) = (tick c)\<lparr>timeLeft := timeLeft (tick c) - int k\<rparr>"
    by (rule Suc.IH)
  then show ?case by (simp add: t algebra_simps)
qed

lemma ticks_after_end:
  assumes "timer_ok c" and "status c = Summary \<or> status c = Flow"
  shows "timeLeft (ticks k c) = timeLeft c \<and> status (ticks k c) = status c"
  using assms
proof (induction k arbitrary: c)
  case 0
  then show ?case by simp
next
  case (Suc k)
  have t: "timeLeft (tick c) = timeLeft c \<and> status (tick c) = status c"
    using Suc.prems
    by (auto simp add: tick_timer_ok expected_callback_def run_effects_timeLeft)
  have "timer_ok (tick c)" using Suc.prems(1) by (rule timer_ok_tick)
  moreover have "status (tick c) = Summary \<or> status (tick c) = Flow" using Suc.prems(2) t by simp
  ultimately have "timeLeft (ticks k (tick c)) = timeLeft (tick c)
                 \<and> status (ticks k (tick c)) = status (tick c)"
    by (rule Suc.IH)
  then show ?case using t by simp
qed

text \<open>
  Claim C5. Take a reachable state in Running with \<open>timeLeft\<close> equal to the target in
  seconds (at least one minute), and let only the clock act. Then \<open>timeLeft\<close> is never
  negative, after \<open>k\<close> ticks short of the target it is the target minus \<open>k\<close> with the phase
  still Running, and after exactly the target number of ticks it is 0 and the phase is
  Summary or Flow.
\<close>

theorem countdown_reaches_zero:
  assumes "reachable p c" and "status c = Running"
    and "timeLeft c = targetMinutes c * 60" and "1 \<le> targetMinutes c"
  shows "(\<forall>k. 0 \<le> timeLeft (ticks k c))
    \<and> (\<forall>k < nat (targetMinutes c * 60).
          status (ticks k c) = Running \<and> timeLeft (ticks k c) = targetMinutes c * 60 - int k)
    \<and> timeLeft (ticks (nat (targetMinutes c * 60)) c) = 0
    \<and> (status (ticks (nat (targetMinutes c * 60)) c) = Summary
        \<or> status (ticks (nat (targetMinutes c * 60)) c) = Flow)"
proof -
  define n where "n = nat (targetMinutes c * 60)"
  have ok: "timer_ok c" using assms(1) by (rule reachable_timer_ok)
  have n: "int n = timeLeft c" "0 < n" using assms(3,4) by (simp_all add: n_def)
  have before: "status (ticks k c) = Running \<and> timeLeft (ticks k c) = targetMinutes c * 60 - int k"
    if "k < n" for k
  proof -
    have "int k < timeLeft c" using that n by simp
    then have "ticks k c = c\<lparr>timeLeft := timeLeft c - int k\<rparr>"
      by (rule countdown_ticks[OF ok assms(2)])
    then show ?thesis using assms(2,3) by simp
  qed
  obtain m where m: "n = Suc m" using n(2) by (cases n) simp_all
  have last: "status (ticks m c) = Running" "timeLeft (ticks m c) = 1"
    using before[of m] n(1) assms(3) m by simp_all
  have e: "ticks n c = tick (ticks m c)"
    using ticks_add[of m 1 c] by (simp add: m)
  have okm: "timer_ok (ticks m c)" using ok by (rule timer_ok_ticks)
  have at: "timeLeft (ticks n c) = 0 \<and> (status (ticks n c) = Summary \<or> status (ticks n c) = Flow)"
    unfolding e using okm last by (intro tick_countdown_end) simp_all
  have okn: "timer_ok (ticks n c)" using ok by (rule timer_ok_ticks)
  have nonneg: "0 \<le> timeLeft (ticks k c)" for k
  proof (cases "k < n")
    case True
    then show ?thesis using before[of k] n(1) assms(3) by simp
  next
    case False
    then have "ticks k c = ticks (k - n) (ticks n c)" using ticks_add[of n "k - n" c] by simp
    then show ?thesis using ticks_after_end[OF okn, of "k - n"] at by simp
  qed
  show ?thesis using nonneg before at unfolding n_def by blast
qed

text \<open>A one minute session just started.\<close>

lemma run_started_1:
  "run props_1min [StartFocus] =
     \<lparr>status = Running, targetMinutes = 1, timeLeft = 60, flowTime = 0,
      totalFocusTime = 0, focusMode = Classic, isCustomMode = False,
      breakTimeLeft = 0, breakDuration = 0, previousTargetMinutes = 1,
      previousFocusMode = Classic, pomodoroCycles = 0, timerRef = Some 1,
      intervals = [(1, Countdown Classic 1)], nextId = 2, alarmsPlayed = 0,
      onFinishCalls = []\<rparr>"
  by code_simp

lemma exec_started_1: "exec props_1min (mount props_1min) [StartFocus] \<noteq> None"
  by code_simp

theorem countdown_reaches_zero_witness:
  "reachable props_1min (run props_1min [StartFocus])
   \<and> status (run props_1min [StartFocus]) = Running
   \<and> timeLeft (run props_1min [StartFocus]) = targetMinutes (run props_1min [StartFocus]) * 60
   \<and> 1 \<le> targetMinutes (run props_1min [StartFocus])
   \<and> timeLeft (ticks 59 (run props_1min [StartFocus])) = 1
   \<and> timeLeft (ticks 60 (run props_1min [StartFocus])) = 0
   \<and> 0 \<le> timeLeft (ticks 1000 (run props_1min [StartFocus]))"
proof -
  have r: "reachable props_1min (run props_1min [StartFocus])"
    using exec_started_1 by (rule reachable_run)
  have h: "status (run props_1min [StartFocus]) = Running"
    "timeLeft (run props_1min [StartFocus]) = targetMinutes (run props_1min [StartFocus]) * 60"
    "1 \<le> targetMinutes (run props_1min [StartFocus])"
    by (simp_all only: run_started_1) simp_all
  have t: "targetMinutes (run props_1min [StartFocus]) = 1" by (simp only: run_started_1) simp
  note z = countdown_reaches_zero[OF r h]
  have a: "timeLeft (ticks 60 (run props_1min [StartFocus])) = 0" using z by (simp add: t)
  have b: "0 \<le> timeLeft (ticks 1000 (run props_1min [StartFocus]))" using z by blast
  have "(59::nat) < nat (targetMinutes (run props_1min [StartFocus]) * 60)" by (simp add: t)
  with z have "timeLeft (ticks 59 (run props_1min [StartFocus]))
                 = targetMinutes (run props_1min [StartFocus]) * 60 - int 59" by blast
  then have c: "timeLeft (ticks 59 (run props_1min [StartFocus])) = 1" by (simp add: t)
  show ?thesis using r h a b c by blast
qed

section \<open>Worked examples\<close>

text \<open>
  A 25 minute session stopped at 25:00 elapsed: 1500 seconds of focus, one cycle counted,
  and a break of 300 seconds.
\<close>

lemma spec_example_25:
  "totalFocusTime (run props_25min (SetFocusMode Prisma # StartFocus # replicate 1500 Tick @ [Stop])) = 1500
   \<and> pomodoroCycles (run props_25min (SetFocusMode Prisma # StartFocus # replicate 1500 Tick @ [Stop])) = 1
   \<and> breakDuration (run props_25min (SetFocusMode Prisma # StartFocus # replicate 1500 Tick @ [Stop, StartBreak])) = 300"
  by code_simp

text \<open>A 10 minute session stopped at 7:00 elapsed: 420 seconds, no cycle counted.\<close>

lemma spec_example_10:
  "totalFocusTime (run props_25min ([OpenCustom, SetSlider 10, StartFocus] @ replicate 420 Tick @ [Stop])) = 420
   \<and> pomodoroCycles (run props_25min ([OpenCustom, SetSlider 10, StartFocus] @ replicate 420 Tick @ [Stop])) = 0"
  by code_simp

text \<open>
  The 80 percent threshold is met at exactly 48 of 60 seconds and missed at 47: the binary64
  product \<open>60 * 0.8\<close> is exactly 48.
\<close>

lemma spec_example_threshold:
  "pomodoroCycles (run props_1min (StartFocus # replicate 48 Tick @ [Stop])) = 1
   \<and> pomodoroCycles (run props_1min (StartFocus # replicate 47 Tick @ [Stop])) = 0"
  by code_simp

end
